theory Spec2Isabelle
  imports Main "HOL-Library.Word"
begin

unbundle bit_operations_syntax

section \<open>Data model of the tracer core\<close>

text \<open>
  The development embeds the x86_64 build (\<open>ARCH_AMD64\<close>) of
  \<open>libdebug/cffi/ptrace_cffi_source.c\<close>.  The intrusive singly-linked lists of the
  source (\<open>next\<close> pointers, heads in \<open>struct global_state\<close>) are HOL lists in
  list order; \<open>malloc\<close> and \<open>free\<close> are the creation and the disappearance of a
  list element.  The \<open>char enabled\<close> flags, only ever assigned 0 or 1 and only
  tested for zero, are booleans.
\<close>

type_synonym u64 = "64 word"

record software_breakpoint =
  sw_addr :: u64
  sw_instruction :: u64
  sw_patched_instruction :: u64
  sw_enabled :: bool

record hardware_breakpoint =
  hw_addr :: u64
  hw_tid :: int
  hw_enabled :: bool
  hw_type :: "char \<times> char"
  hw_len :: "8 word"

text \<open>
  \<open>struct ptrace_regs_struct\<close> is declared outside the file; the register block
  is the type parameter \<open>'r\<close>.  Of \<open>struct fp_regs_struct\<close> only the \<open>type\<close> tag
  is touched by the functions embedded here.
\<close>

record 'r thread =
  t_tid :: int
  t_regs :: 'r
  t_fpregs_type :: int
  t_signal_to_forward :: int

record thread_status =
  ts_tid :: int
  ts_status :: int

record 'r global_state =
  t_HEAD :: "'r thread list"
  dead_t_HEAD :: "'r thread list"
  sw_b_HEAD :: "software_breakpoint list"
  hw_b_HEAD :: "hardware_breakpoint list"
  handle_syscall_enabled :: bool

text \<open>
  The macros \<open>INSTRUCTION_POINTER\<close>, \<open>INSTALL_BREAKPOINT\<close>, \<open>IS_SW_BREAKPOINT\<close>,
  \<open>IS_CALL_INSTRUCTION\<close>, \<open>IS_RET_INSTRUCTION\<close> and \<open>FPREGS_AVX\<close> are used by the
  file but defined by its build; they are parameters of the embedding.
\<close>

record 'r arch =
  INSTRUCTION_POINTER :: "'r \<Rightarrow> u64"
  INSTALL_BREAKPOINT :: "u64 \<Rightarrow> u64"
  IS_SW_BREAKPOINT :: "u64 \<Rightarrow> bool"
  IS_CALL_INSTRUCTION :: "u64 \<Rightarrow> bool"
  IS_RET_INSTRUCTION :: "u64 \<Rightarrow> bool"
  FPREGS_AVX :: int

section \<open>The kernel and the tracee, as seen through the system calls\<close>

text \<open>
  Every system call the source issues is recorded, in order, with its arguments.
\<close>

datatype event =
    Setregs int
  | Getregs int
  | Singlestep int int
  | Cont int int
  | Syscall int int
  | Waitpid int int
  | Getpgid int
  | Tgkill int int int
  | Peekdata int u64
  | Pokedata int u64 u64
  | Peekuser int u64
  | Pokeuser int u64 u64

text \<open>
  The tracee: its byte-addressed memory (one address space, shared by its threads), the
  per-thread user area holding the debug registers, the registers the kernel holds for
  each thread, for which pid and address a \<open>PTRACE_POKEDATA\<close> request is accepted,
  the system calls issued so far and the lines written to \<open>stderr\<close>.
\<close>

record 'r tracee =
  mem :: "u64 \<Rightarrow> 8 word"
  uarea :: "int \<Rightarrow> u64 \<Rightarrow> u64"
  kregs :: "int \<Rightarrow> 'r"
  writable :: "int \<Rightarrow> u64 \<Rightarrow> bool"
  calls :: "event list"
  diag :: "string list"

text \<open>
  What the source cannot know in advance is left to an arbitrary kernel: whether a
  request succeeds, what a wait reports, how far the tracee has run when a wait
  returns, and what freshly allocated storage contains.  Each answer may depend on
  the whole tracee, including the history of calls.  Theorems quantify over every
  such kernel.
\<close>

record 'r kernel =
  setregs_ok :: "int \<Rightarrow> 'r \<Rightarrow> 'r tracee \<Rightarrow> bool"
  getregs_ok :: "int \<Rightarrow> 'r tracee \<Rightarrow> bool"
  singlestep_ok :: "int \<Rightarrow> 'r tracee \<Rightarrow> bool"
  cont_ok :: "int \<Rightarrow> 'r tracee \<Rightarrow> bool"
  waitpid_result :: "int \<Rightarrow> int \<Rightarrow> 'r tracee \<Rightarrow> int \<times> int"
  getpgid_result :: "int \<Rightarrow> 'r tracee \<Rightarrow> int"
  tracee_progress :: "'r tracee \<Rightarrow> 'r tracee"
  fresh_regs :: 'r
  fresh_int :: int

definition logcall :: "event \<Rightarrow> 'r tracee \<Rightarrow> 'r tracee" where
  "logcall e w = w\<lparr>calls := calls w @ [e]\<rparr>"

definition perror :: "string \<Rightarrow> 'r tracee \<Rightarrow> 'r tracee" where
  "perror s w = w\<lparr>diag := diag w @ [s]\<rparr>"

subsection \<open>Memory words\<close>

text \<open>
  \<open>PTRACE_PEEKDATA\<close> and \<open>PTRACE_POKEDATA\<close> transfer one 8-byte word at a byte
  address; both supported architectures are little-endian.  A write can be refused
  (no such process, address not mapped): it then leaves memory as it was, and the source
  never looks at the result of the request.  A read always yields the word in memory;
  a failed read is not modelled.
\<close>

definition load64 :: "(u64 \<Rightarrow> 8 word) \<Rightarrow> u64 \<Rightarrow> u64" where
  "load64 m a =
     ucast (m a) OR push_bit 8 (ucast (m (a + 1)) OR push_bit 8 (ucast (m (a + 2))
     OR push_bit 8 (ucast (m (a + 3)) OR push_bit 8 (ucast (m (a + 4))
     OR push_bit 8 (ucast (m (a + 5)) OR push_bit 8 (ucast (m (a + 6))
     OR push_bit 8 (ucast (m (a + 7)))))))))"

definition store64 :: "(u64 \<Rightarrow> 8 word) \<Rightarrow> u64 \<Rightarrow> u64 \<Rightarrow> (u64 \<Rightarrow> 8 word)" where
  "store64 m a v =
     m(a := ucast v, a + 1 := ucast (drop_bit 8 v), a + 2 := ucast (drop_bit 16 v),
       a + 3 := ucast (drop_bit 24 v), a + 4 := ucast (drop_bit 32 v),
       a + 5 := ucast (drop_bit 40 v), a + 6 := ucast (drop_bit 48 v),
       a + 7 := ucast (drop_bit 56 v))"

text \<open>Two words are apart when they share no byte, also across the wrap-around.\<close>

definition apart :: "u64 \<Rightarrow> u64 \<Rightarrow> bool" where
  "apart a b = (8 \<le> a - b \<and> 8 \<le> b - a)"

definition sys_peekdata :: "int \<Rightarrow> u64 \<Rightarrow> 'r tracee \<Rightarrow> u64 \<times> 'r tracee" where
  "sys_peekdata pid a w = (load64 (mem w) a, logcall (Peekdata pid a) w)"

definition sys_pokedata :: "int \<Rightarrow> u64 \<Rightarrow> u64 \<Rightarrow> 'r tracee \<Rightarrow> 'r tracee" where
  "sys_pokedata pid a v w =
     logcall (Pokedata pid a v) (if writable w pid a then w\<lparr>mem := store64 (mem w) a v\<rparr> else w)"

section \<open>Software breakpoint table\<close>

text \<open>
  The search loop of \<open>register_breakpoint\<close>: the first entry at the address gets
  \<open>enabled = 1\<close> and the function returns; \<open>None\<close> when the loop runs off the list.
\<close>

primrec sw_enable_first :: "u64 \<Rightarrow> software_breakpoint list \<Rightarrow> software_breakpoint list option" where
  "sw_enable_first a [] = None"
| "sw_enable_first a (b # bs) =
     (if sw_addr b = a then Some (b\<lparr>sw_enabled := True\<rparr> # bs)
      else map_option ((#) b) (sw_enable_first a bs))"

text \<open>
  The insertion walk: \<open>prev\<close> is the last entry passed, the list argument is what
  follows it (\<open>next\<close>); the walk goes on while \<open>next->addr < address\<close>.
\<close>

fun sw_insert_after ::
  "software_breakpoint \<Rightarrow> software_breakpoint \<Rightarrow> software_breakpoint list \<Rightarrow> software_breakpoint list" where
  "sw_insert_after b prev [] = [prev, b]"
| "sw_insert_after b prev (n # ns) =
     (if sw_addr n < sw_addr b then prev # sw_insert_after b n ns else prev # b # n # ns)"

text \<open>
  Insertion of a new entry: at the head when the list is empty or its first address is
  greater, by the walk otherwise.
\<close>

definition sw_insert ::
  "software_breakpoint \<Rightarrow> software_breakpoint list \<Rightarrow> software_breakpoint list" where
  "sw_insert b l =
     (case l of
        [] \<Rightarrow> [b]
      | h # rest \<Rightarrow> if sw_addr b < sw_addr h then b # h # rest else sw_insert_after b h rest)"

definition register_breakpoint ::
  "'r arch \<Rightarrow> int \<Rightarrow> u64 \<Rightarrow> 'r global_state \<Rightarrow> 'r tracee \<Rightarrow> 'r global_state \<times> 'r tracee" where
  "register_breakpoint A pid address state w =
     (case sys_peekdata pid address w of (instruction, w1) \<Rightarrow>
        (case sw_enable_first address (sw_b_HEAD state) of
           Some l \<Rightarrow>
             (state\<lparr>sw_b_HEAD := l\<rparr>,
              sys_pokedata pid address (INSTALL_BREAKPOINT A instruction) w1)
         | None \<Rightarrow>
             (state\<lparr>sw_b_HEAD :=
                sw_insert
                  \<lparr>sw_addr = address, sw_instruction = instruction,
                   sw_patched_instruction = INSTALL_BREAKPOINT A instruction, sw_enabled = True\<rparr>
                  (sw_b_HEAD state)\<rparr>,
              sys_pokedata pid address (INSTALL_BREAKPOINT A instruction) w1)))"

primrec sw_unlink :: "u64 \<Rightarrow> software_breakpoint list \<Rightarrow> software_breakpoint list" where
  "sw_unlink a [] = []"
| "sw_unlink a (b # bs) = (if sw_addr b = a then bs else b # sw_unlink a bs)"

definition unregister_breakpoint ::
  "u64 \<Rightarrow> 'r global_state \<Rightarrow> 'r tracee \<Rightarrow> 'r global_state \<times> 'r tracee" where
  "unregister_breakpoint address state w =
     (state\<lparr>sw_b_HEAD := sw_unlink address (sw_b_HEAD state)\<rparr>, w)"

text \<open>The loops of \<open>enable_breakpoint\<close> and \<open>disable_breakpoint\<close> visit every entry.\<close>

primrec sw_set_enabled :: "bool \<Rightarrow> u64 \<Rightarrow> software_breakpoint list \<Rightarrow> software_breakpoint list" where
  "sw_set_enabled v a [] = []"
| "sw_set_enabled v a (b # bs) =
     (if sw_addr b = a then b\<lparr>sw_enabled := v\<rparr> else b) # sw_set_enabled v a bs"

definition enable_breakpoint ::
  "u64 \<Rightarrow> 'r global_state \<Rightarrow> 'r tracee \<Rightarrow> 'r global_state \<times> 'r tracee" where
  "enable_breakpoint address state w =
     (state\<lparr>sw_b_HEAD := sw_set_enabled True address (sw_b_HEAD state)\<rparr>, w)"

definition disable_breakpoint ::
  "u64 \<Rightarrow> 'r global_state \<Rightarrow> 'r tracee \<Rightarrow> 'r global_state \<times> 'r tracee" where
  "disable_breakpoint address state w =
     (state\<lparr>sw_b_HEAD := sw_set_enabled False address (sw_b_HEAD state)\<rparr>, w)"

text \<open>Sequences of calls on the software breakpoint table.\<close>

datatype bp_op =
    Register int u64
  | Unregister u64
  | Enable u64
  | Disable u64

fun apply_bp_op ::
  "'r arch \<Rightarrow> bp_op \<Rightarrow> 'r global_state \<times> 'r tracee \<Rightarrow> 'r global_state \<times> 'r tracee" where
  "apply_bp_op A (Register pid a) (state, w) = register_breakpoint A pid a state w"
| "apply_bp_op A (Unregister a) (state, w) = unregister_breakpoint a state w"
| "apply_bp_op A (Enable a) (state, w) = enable_breakpoint a state w"
| "apply_bp_op A (Disable a) (state, w) = disable_breakpoint a state w"

definition run_bp_ops ::
  "'r arch \<Rightarrow> bp_op list \<Rightarrow> 'r global_state \<times> 'r tracee \<Rightarrow> 'r global_state \<times> 'r tracee" where
  "run_bp_ops A ops s = fold (apply_bp_op A) ops s"

section \<open>Register transfer and execution control\<close>

text \<open>
  \<open>getregs\<close> and \<open>setregs\<close> are the source's wrappers of \<open>PTRACE_GETREGS\<close> and
  \<open>PTRACE_SETREGS\<close>: 0 on success, -1 on failure.  A failed read leaves the
  caller's buffer as it was.
\<close>

definition setregs :: "'r kernel \<Rightarrow> int \<Rightarrow> 'r \<Rightarrow> 'r tracee \<Rightarrow> int \<times> 'r tracee" where
  "setregs K tid regs w =
     (if setregs_ok K tid regs w
      then (0, logcall (Setregs tid) (w\<lparr>kregs := (kregs w)(tid := regs)\<rparr>))
      else (- 1, logcall (Setregs tid) w))"

definition getregs :: "'r kernel \<Rightarrow> int \<Rightarrow> 'r \<Rightarrow> 'r tracee \<Rightarrow> int \<times> 'r \<times> 'r tracee" where
  "getregs K tid buf w =
     (if getregs_ok K tid w then (0, kregs w tid, logcall (Getregs tid) w)
      else (- 1, buf, logcall (Getregs tid) w))"

definition sys_singlestep :: "'r kernel \<Rightarrow> int \<Rightarrow> int \<Rightarrow> 'r tracee \<Rightarrow> int \<times> 'r tracee" where
  "sys_singlestep K tid sig w =
     ((if singlestep_ok K tid w then 0 else - 1), logcall (Singlestep tid sig) w)"

text \<open>\<open>PTRACE_SYSCALL\<close> when the flag is set, \<open>PTRACE_CONT\<close> otherwise.\<close>

definition sys_cont :: "'r kernel \<Rightarrow> bool \<Rightarrow> int \<Rightarrow> int \<Rightarrow> 'r tracee \<Rightarrow> int \<times> 'r tracee" where
  "sys_cont K sysc tid sig w =
     ((if cont_ok K tid w then 0 else - 1),
      logcall (if sysc then Syscall tid sig else Cont tid sig) w)"

text \<open>
  \<open>waitpid(pid, &status, options)\<close>: the return value and the status word; the status
  is stored only when a thread is reported.  What the tracee has done in the meantime
  (memory, its mapping, registers, debug registers) becomes visible when the call returns.
\<close>

definition sys_waitpid ::
  "'r kernel \<Rightarrow> int \<Rightarrow> int \<Rightarrow> int \<Rightarrow> 'r tracee \<Rightarrow> int \<times> int \<times> 'r tracee" where
  "sys_waitpid K pid options status w =
     (let p = tracee_progress K w;
          r = waitpid_result K pid options w
      in (fst r, (if 0 < fst r then snd r else status),
          logcall (Waitpid pid options)
            (w\<lparr>mem := mem p, uarea := uarea p, kregs := kregs p, writable := writable p\<rparr>)))"

definition sys_getpgid :: "'r kernel \<Rightarrow> int \<Rightarrow> 'r tracee \<Rightarrow> int \<times> 'r tracee" where
  "sys_getpgid K pid w = (getpgid_result K pid w, logcall (Getpgid pid) w)"

definition sys_tgkill :: "int \<Rightarrow> int \<Rightarrow> int \<Rightarrow> 'r tracee \<Rightarrow> 'r tracee" where
  "sys_tgkill pid tid sig w = logcall (Tgkill pid tid sig) w"

definition SIGSTOP :: int where "SIGSTOP = 19"

definition WNOHANG :: int where "WNOHANG = 1"

definition sys_peekuser :: "int \<Rightarrow> u64 \<Rightarrow> 'r tracee \<Rightarrow> u64 \<times> 'r tracee" where
  "sys_peekuser tid off w = (uarea w tid off, logcall (Peekuser tid off) w)"

definition sys_pokeuser :: "int \<Rightarrow> u64 \<Rightarrow> u64 \<Rightarrow> 'r tracee \<Rightarrow> 'r tracee" where
  "sys_pokeuser tid off v w =
     logcall (Pokeuser tid off v) (w\<lparr>uarea := (uarea w)(tid := (uarea w tid)(off := v))\<rparr>)"

section \<open>Thread table\<close>

text \<open>
  A pointer into the live list is the position of the entry.  \<open>find_thread\<close> is the
  search that stops at the first entry with the tid; \<open>find_last_thread\<close> is the loop of
  \<open>step_until\<close>, which keeps going and so ends on the last one.
\<close>

primrec find_thread :: "int \<Rightarrow> 'r thread list \<Rightarrow> nat option" where
  "find_thread tid [] = None"
| "find_thread tid (t # ts) =
     (if t_tid t = tid then Some 0 else map_option Suc (find_thread tid ts))"

primrec find_last_thread :: "int \<Rightarrow> 'r thread list \<Rightarrow> nat option" where
  "find_last_thread tid [] = None"
| "find_last_thread tid (t # ts) =
     (case find_last_thread tid ts of
        Some i \<Rightarrow> Some (Suc i)
      | None \<Rightarrow> if t_tid t = tid then Some 0 else None)"

text \<open>
  \<open>register_thread\<close> returns \<open>&t->regs\<close>: here the position of \<open>t\<close> in the live list
  of the resulting state.  The result of \<open>getregs\<close> is ignored by the source.
\<close>

definition register_thread ::
  "'r arch \<Rightarrow> 'r kernel \<Rightarrow> int \<Rightarrow> 'r global_state \<Rightarrow> 'r tracee \<Rightarrow> nat \<times> 'r global_state \<times> 'r tracee" where
  "register_thread A K tid state w =
     (case find_thread tid (t_HEAD state) of
        Some i \<Rightarrow> (i, state, w)
      | None \<Rightarrow>
          (case getregs K tid (fresh_regs K) w of (rc, regs, w1) \<Rightarrow>
             (0, state\<lparr>t_HEAD := \<lparr>t_tid = tid, t_regs = regs, t_fpregs_type = FPREGS_AVX A,
                                   t_signal_to_forward = 0\<rparr> # t_HEAD state\<rparr>, w1)))"

section \<open>Run/stop coordinator\<close>

text \<open>The register flush that opens every resume: failures are reported, not fatal.\<close>

primrec flush_regs :: "'r kernel \<Rightarrow> string \<Rightarrow> 'r thread list \<Rightarrow> 'r tracee \<Rightarrow> 'r tracee" where
  "flush_regs K msg [] w = w"
| "flush_regs K msg (t # ts) w =
     (case setregs K (t_tid t) (t_regs t) w of (rc, w1) \<Rightarrow>
        flush_regs K msg ts (if rc \<noteq> 0 then perror msg w1 else w1))"

text \<open>
  The inner loop of \<open>prepare_for_run\<close> that sets \<open>t_hit\<close>: it compares addresses only.
\<close>

primrec sw_hit :: "u64 \<Rightarrow> software_breakpoint list \<Rightarrow> bool" where
  "sw_hit ip [] = False"
| "sw_hit ip (b # bs) = (if sw_addr b = ip then True else sw_hit ip bs)"

text \<open>
  The outer loop over the threads.  \<open>Inl\<close> is the \<open>return -1\<close> after a failed
  single-step; \<open>Inr\<close> carries the last status on to the rest of the function.
\<close>

fun step_over_hits ::
  "'r arch \<Rightarrow> 'r kernel \<Rightarrow> software_breakpoint list \<Rightarrow> 'r thread list \<Rightarrow> int \<Rightarrow> 'r tracee
   \<Rightarrow> 'r tracee + int \<times> 'r tracee" where
  "step_over_hits A K bps [] status w = Inr (status, w)"
| "step_over_hits A K bps (t # ts) status w =
     (if sw_hit (INSTRUCTION_POINTER A (t_regs t)) bps then
        (case sys_singlestep K (t_tid t) 0 w of (rc, w1) \<Rightarrow>
           if rc \<noteq> 0 then Inl w1
           else
             (case sys_waitpid K (t_tid t) 0 status w1 of (r, status1, w2) \<Rightarrow>
                if status1 = 4991 then
                  (case sys_singlestep K (t_tid t) 0 w2 of (rc2, w3) \<Rightarrow>
                     case sys_waitpid K (t_tid t) 0 status1 w3 of (r2, status2, w4) \<Rightarrow>
                       step_over_hits A K bps ts status2 w4)
                else step_over_hits A K bps ts status1 w2))
      else step_over_hits A K bps ts status w)"

text \<open>
  The loop that writes one word per enabled entry, in list order: \<open>patched_instruction\<close>
  in \<open>prepare_for_run\<close>, \<open>instruction\<close> in \<open>wait_all_and_update_regs\<close> and in the
  cleanup of \<open>stepping_finish\<close>.
\<close>

primrec poke_enabled ::
  "(software_breakpoint \<Rightarrow> u64) \<Rightarrow> int \<Rightarrow> software_breakpoint list \<Rightarrow> 'r tracee \<Rightarrow> 'r tracee" where
  "poke_enabled f pid [] w = w"
| "poke_enabled f pid (b # bs) w =
     poke_enabled f pid bs (if sw_enabled b then sys_pokedata pid (sw_addr b) (f b) w else w)"

text \<open>
  In the x86_64 build \<open>prepare_for_run\<close> does not write to \<open>state\<close>; it returns the
  status and the tracee.
\<close>

definition prepare_for_run ::
  "'r arch \<Rightarrow> 'r kernel \<Rightarrow> int \<Rightarrow> 'r global_state \<Rightarrow> 'r tracee \<Rightarrow> int \<times> 'r tracee" where
  "prepare_for_run A K pid state w =
     (case step_over_hits A K (sw_b_HEAD state) (t_HEAD state) 0
             (flush_regs K ''ptrace_setregs failed for thread'' (t_HEAD state) w) of
        Inl w1 \<Rightarrow> (- 1, w1)
      | Inr (status, w1) \<Rightarrow>
          (status, poke_enabled sw_patched_instruction pid (sw_b_HEAD state) w1))"

primrec cont_threads ::
  "'r kernel \<Rightarrow> bool \<Rightarrow> 'r thread list \<Rightarrow> 'r tracee \<Rightarrow> 'r thread list \<times> 'r tracee" where
  "cont_threads K sysc [] w = ([], w)"
| "cont_threads K sysc (t # ts) w =
     (case sys_cont K sysc (t_tid t) (t_signal_to_forward t) w of (rc, w1) \<Rightarrow>
        case cont_threads K sysc ts (if rc \<noteq> 0 then perror ''ptrace_cont failed for thread'' w1 else w1)
        of (ts', w2) \<Rightarrow> (t\<lparr>t_signal_to_forward := 0\<rparr> # ts', w2))"

definition cont_all_and_set_bps ::
  "'r arch \<Rightarrow> 'r kernel \<Rightarrow> int \<Rightarrow> 'r global_state \<Rightarrow> 'r tracee \<Rightarrow> int \<times> 'r global_state \<times> 'r tracee" where
  "cont_all_and_set_bps A K pid state w =
     (case prepare_for_run A K pid state w of (status, w1) \<Rightarrow>
        case cont_threads K (handle_syscall_enabled state) (t_HEAD state) w1 of (ts, w2) \<Rightarrow>
          (status, state\<lparr>t_HEAD := ts\<rparr>, w2))"

subsection \<open>Stop-the-world collection\<close>

text \<open>
  The list of statuses is never empty once the first wait has succeeded: it is kept as
  its head and the rest.  The loop compares each tid with \<open>head->tid\<close>, and \<open>head\<close>
  is reassigned whenever a status is pushed.
\<close>

fun stop_others ::
  "'r kernel \<Rightarrow> int \<Rightarrow> 'r thread list \<Rightarrow> int \<Rightarrow> thread_status \<Rightarrow> thread_status list \<Rightarrow> 'r tracee
   \<Rightarrow> 'r thread list \<times> int \<times> thread_status \<times> thread_status list \<times> 'r tracee" where
  "stop_others K pid [] temp_status h rest w = ([], temp_status, h, rest, w)"
| "stop_others K pid (t # ts) temp_status h rest w =
     (if t_tid t \<noteq> ts_tid h then
        (case getregs K (t_tid t) (t_regs t) w of (rc, regs, w1) \<Rightarrow>
           if rc = - 1 then
             (case sys_waitpid K (t_tid t) 0 temp_status (sys_tgkill pid (t_tid t) SIGSTOP w1)
              of (temp_tid, temp_status1, w2) \<Rightarrow>
                case stop_others K pid ts temp_status1
                       \<lparr>ts_tid = temp_tid, ts_status = temp_status1\<rparr> (h # rest) w2
                of (ts', r) \<Rightarrow> (t\<lparr>t_regs := regs\<rparr> # ts', r))
           else
             (case stop_others K pid ts temp_status h rest w1
              of (ts', r) \<Rightarrow> (t\<lparr>t_regs := regs\<rparr> # ts', r)))
      else
        (case stop_others K pid ts temp_status h rest w of (ts', r) \<Rightarrow> (t # ts', r)))"

text \<open>
  The non-blocking drain runs as long as the kernel reports a thread; its fuel bounds the
  number of polls, and \<open>None\<close> is a drain that has not ended within it.
\<close>

fun drain_statuses ::
  "nat \<Rightarrow> 'r kernel \<Rightarrow> int \<Rightarrow> int \<Rightarrow> thread_status list \<Rightarrow> 'r tracee
   \<Rightarrow> (thread_status list \<times> 'r tracee) option" where
  "drain_statuses 0 K pid temp_status head w = None"
| "drain_statuses (Suc n) K pid temp_status head w =
     (case sys_getpgid K pid w of (pg, w1) \<Rightarrow>
        case sys_waitpid K (- pg) WNOHANG temp_status w1 of (temp_tid, temp_status1, w2) \<Rightarrow>
          if 0 < temp_tid
          then drain_statuses n K pid temp_status1
                 (\<lparr>ts_tid = temp_tid, ts_status = temp_status1\<rparr> # head) w2
          else Some (head, w2))"

primrec refresh_regs :: "'r kernel \<Rightarrow> 'r thread list \<Rightarrow> 'r tracee \<Rightarrow> 'r thread list \<times> 'r tracee" where
  "refresh_regs K [] w = ([], w)"
| "refresh_regs K (t # ts) w =
     (case getregs K (t_tid t) (t_regs t) w of (rc, regs, w1) \<Rightarrow>
        case refresh_regs K ts w1 of (ts', w2) \<Rightarrow> (t\<lparr>t_regs := regs\<rparr> # ts', w2))"

text \<open>
  The result list is \<open>None\<close> for the \<open>NULL\<close> return.  \<open>head->status\<close> and
  \<open>temp_status\<close> start as whatever the allocation and the stack hold.
\<close>

definition wait_all_and_update_regs ::
  "nat \<Rightarrow> 'r kernel \<Rightarrow> int \<Rightarrow> 'r global_state \<Rightarrow> 'r tracee
   \<Rightarrow> (thread_status list option \<times> 'r global_state \<times> 'r tracee) option" where
  "wait_all_and_update_regs fuel K pid state w =
     (case sys_getpgid K pid w of (pg, w1) \<Rightarrow>
        case sys_waitpid K (- pg) 0 (fresh_int K) w1 of (head_tid, head_status, w2) \<Rightarrow>
          if head_tid = - 1 then Some (None, state, perror ''waitpid'' w2)
          else
            (case stop_others K pid (t_HEAD state) (fresh_int K)
                    \<lparr>ts_tid = head_tid, ts_status = head_status\<rparr> [] w2
             of (ts1, temp_status, h, rest, w3) \<Rightarrow>
               (case drain_statuses fuel K pid temp_status (h # rest) w3 of
                  None \<Rightarrow> None
                | Some (head, w4) \<Rightarrow>
                    (case refresh_regs K ts1 w4 of (ts2, w5) \<Rightarrow>
                       Some (Some head, state\<lparr>t_HEAD := ts2\<rparr>,
                             poke_enabled sw_instruction pid (sw_b_HEAD state) w5)))))"

subsection \<open>Stepping\<close>

text \<open>
  The loop of \<open>step_until\<close>, on the registers of the stepping thread.  The condition is
  tested before anything else; a further iteration needs fuel, and \<open>None\<close> is a loop
  that has not ended within it.  The result is the return value, the thread's cached
  registers and the tracee.
\<close>

fun step_until_loop ::
  "nat \<Rightarrow> 'r arch \<Rightarrow> 'r kernel \<Rightarrow> int \<Rightarrow> u64 \<Rightarrow> int \<Rightarrow> int \<Rightarrow> int \<Rightarrow> 'r \<Rightarrow> 'r tracee
   \<Rightarrow> (int \<times> 'r \<times> 'r tracee) option" where
  "step_until_loop 0 A K tid addr max_steps count status regs w =
     (if max_steps = - 1 \<or> count < max_steps then None else Some (0, regs, w))"
| "step_until_loop (Suc n) A K tid addr max_steps count status regs w =
     (if max_steps = - 1 \<or> count < max_steps then
        (case sys_singlestep K tid 0 w of (rc, w1) \<Rightarrow>
           if rc \<noteq> 0 then Some (- 1, regs, w1)
           else
             (case sys_waitpid K tid 0 status w1 of (r, status1, w2) \<Rightarrow>
                case getregs K tid regs w2 of (rc2, regs1, w3) \<Rightarrow>
                  if INSTRUCTION_POINTER A regs1 = addr then Some (0, regs1, w3)
                  else if INSTRUCTION_POINTER A regs1 = INSTRUCTION_POINTER A regs
                  then step_until_loop n A K tid addr max_steps count status1 regs1 w3
                  else step_until_loop n A K tid addr max_steps (count + 1) status1 regs1 w3))
      else Some (0, regs, w))"

definition set_thread_regs :: "nat \<Rightarrow> 'r \<Rightarrow> 'r thread list \<Rightarrow> 'r thread list" where
  "set_thread_regs i regs ts = ts[i := (ts ! i)\<lparr>t_regs := regs\<rparr>]"

definition step_until ::
  "nat \<Rightarrow> 'r arch \<Rightarrow> 'r kernel \<Rightarrow> int \<Rightarrow> u64 \<Rightarrow> int \<Rightarrow> 'r global_state \<Rightarrow> 'r tracee
   \<Rightarrow> (int \<times> 'r global_state \<times> 'r tracee) option" where
  "step_until fuel A K tid addr max_steps state w =
     (case find_last_thread tid (t_HEAD state) of
        None \<Rightarrow>
          Some (- 1, state, perror ''Thread not found'' (flush_regs K ''ptrace_setregs'' (t_HEAD state) w))
      | Some i \<Rightarrow>
          (case step_until_loop fuel A K tid addr max_steps 0 0 (t_regs (t_HEAD state ! i))
                  (flush_regs K ''ptrace_setregs'' (t_HEAD state) w) of
             None \<Rightarrow> None
           | Some (ret, regs, w1) \<Rightarrow>
               Some (ret, state\<lparr>t_HEAD := set_thread_regs i regs (t_HEAD state)\<rparr>, w1)))"

text \<open>
  The \<open>do ... while (nested_call_counter > 0)\<close> loop of \<open>stepping_finish\<close> ends in one
  of three ways: the \<open>return -1\<close> after a failed single-step, the \<open>goto cleanup\<close>, or
  the counter reaching zero.
\<close>

datatype loop_exit = Return_error | Goto_cleanup | Counter_done

fun finish_loop ::
  "nat \<Rightarrow> 'r arch \<Rightarrow> 'r kernel \<Rightarrow> int \<Rightarrow> int \<Rightarrow> int \<Rightarrow> 'r \<Rightarrow> 'r tracee
   \<Rightarrow> (loop_exit \<times> int \<times> 'r \<times> 'r tracee) option" where
  "finish_loop 0 A K tid nested_call_counter status regs w = None"
| "finish_loop (Suc n) A K tid nested_call_counter status regs w =
     (case sys_singlestep K tid 0 w of (rc, w1) \<Rightarrow>
        if rc \<noteq> 0 then Some (Return_error, status, regs, w1)
        else
          (case sys_waitpid K tid 0 status w1 of (r, status1, w2) \<Rightarrow>
             case getregs K tid regs w2 of (rc2, regs1, w3) \<Rightarrow>
               case sys_peekdata tid (INSTRUCTION_POINTER A regs1) w3 of (opcode_window, w4) \<Rightarrow>
                 if INSTRUCTION_POINTER A regs1 = INSTRUCTION_POINTER A regs
                    \<or> IS_SW_BREAKPOINT A (opcode_window AND 0xFF)
                 then Some (Goto_cleanup, status1, regs1, w4)
                 else if IS_CALL_INSTRUCTION A opcode_window then
                   (if 0 < nested_call_counter + 1
                    then finish_loop n A K tid (nested_call_counter + 1) status1 regs1 w4
                    else Some (Counter_done, status1, regs1, w4))
                 else if IS_RET_INSTRUCTION A (opcode_window AND 0xFF) then
                   (if 0 < nested_call_counter - 1
                    then finish_loop n A K tid (nested_call_counter - 1) status1 regs1 w4
                    else Some (Counter_done, status1, regs1, w4))
                 else
                   (if 0 < nested_call_counter
                    then finish_loop n A K tid nested_call_counter status1 regs1 w4
                    else Some (Counter_done, status1, regs1, w4))))"

text \<open>
  \<open>stepping_finish\<close> passes its \<open>tid\<close> where \<open>prepare_for_run\<close> and the memory
  requests expect the pid.
\<close>

definition stepping_finish ::
  "nat \<Rightarrow> 'r arch \<Rightarrow> 'r kernel \<Rightarrow> int \<Rightarrow> 'r global_state \<Rightarrow> 'r tracee
   \<Rightarrow> (int \<times> 'r global_state \<times> 'r tracee) option" where
  "stepping_finish fuel A K tid state w =
     (case prepare_for_run A K tid state w of (status, w1) \<Rightarrow>
       (case find_thread tid (t_HEAD state) of
          None \<Rightarrow> Some (- 1, state, perror ''Thread not found'' w1)
        | Some i \<Rightarrow>
            (case finish_loop fuel A K tid 1 status (t_regs (t_HEAD state ! i)) w1 of
               None \<Rightarrow> None
             | Some (Return_error, status1, regs, w2) \<Rightarrow>
                 Some (- 1, state\<lparr>t_HEAD := set_thread_regs i regs (t_HEAD state)\<rparr>, w2)
             | Some (Goto_cleanup, status1, regs, w2) \<Rightarrow>
                 Some (0, state\<lparr>t_HEAD := set_thread_regs i regs (t_HEAD state)\<rparr>,
                       poke_enabled sw_instruction tid (sw_b_HEAD state) w2)
             | Some (Counter_done, status1, regs, w2) \<Rightarrow>
                 (case sys_singlestep K tid 0 w2 of (rc, w3) \<Rightarrow>
                    if rc \<noteq> 0
                    then Some (- 1, state\<lparr>t_HEAD := set_thread_regs i regs (t_HEAD state)\<rparr>, w3)
                    else
                      (case sys_waitpid K tid 0 status1 w3 of (r, status2, w4) \<Rightarrow>
                         case getregs K tid regs w4 of (rc2, regs1, w5) \<Rightarrow>
                           Some (0, state\<lparr>t_HEAD := set_thread_regs i regs1 (t_HEAD state)\<rparr>,
                                 poke_enabled sw_instruction tid (sw_b_HEAD state) w5))))))"

section \<open>Hardware breakpoints (x86\_64)\<close>

definition DR_BASE :: u64 where "DR_BASE = 0x350"

definition DR_SIZE :: u64 where "DR_SIZE = 0x8"

text \<open>
  The control-word macros compute in \<open>int\<close>; the conversion to \<open>unsigned long\<close>
  extends the sign.
\<close>

definition CTRL_LOCAL :: "nat \<Rightarrow> 32 word" where
  "CTRL_LOCAL x = push_bit (2 * x) 1"

definition CTRL_COND :: "nat \<Rightarrow> nat" where
  "CTRL_COND x = 16 + 4 * x"

definition CTRL_COND_VAL :: "char \<Rightarrow> 32 word" where
  "CTRL_COND_VAL x = (if x = CHR ''x'' then 0 else if x = CHR ''w'' then 1 else 3)"

definition CTRL_LEN :: "nat \<Rightarrow> nat" where
  "CTRL_LEN x = 18 + 4 * x"

definition CTRL_LEN_VAL :: "8 word \<Rightarrow> 32 word" where
  "CTRL_LEN_VAL x = (if x = 1 then 0 else if x = 2 then 1 else if x = 8 then 2 else 3)"

text \<open>
  The scan \<open>for (i = 0; i < 4; i++)\<close> for a debug register whose address reads as
  zero: \<open>i\<close> is the current index, the second number the iterations left; the result is
  4 when no register is free.
\<close>

fun scan_free_dr :: "int \<Rightarrow> nat \<Rightarrow> nat \<Rightarrow> 'r tracee \<Rightarrow> nat \<times> 'r tracee" where
  "scan_free_dr tid i 0 w = (i, w)"
| "scan_free_dr tid i (Suc n) w =
     (case sys_peekuser tid (DR_BASE + of_nat i * DR_SIZE) w of (address, w1) \<Rightarrow>
        if address = 0 then (i, w1) else scan_free_dr tid (Suc i) n w1)"

definition install_hardware_breakpoint :: "hardware_breakpoint \<Rightarrow> 'r tracee \<Rightarrow> 'r tracee" where
  "install_hardware_breakpoint bp w =
     (case scan_free_dr (hw_tid bp) 0 4 w of (i, w1) \<Rightarrow>
        if i = 4 then perror ''No debug registers available'' w1
        else
          (case sys_peekuser (hw_tid bp) (DR_BASE + 7 * DR_SIZE) w1 of (state, w2) \<Rightarrow>
             sys_pokeuser (hw_tid bp) (DR_BASE + 7 * DR_SIZE)
               (((state AND scast (NOT (push_bit (CTRL_COND i) (3 :: 32 word))))
                   AND scast (NOT (push_bit (CTRL_LEN i) (3 :: 32 word))))
                OR scast (CTRL_LOCAL i
                          OR push_bit (CTRL_COND i) (CTRL_COND_VAL (fst (hw_type bp)))
                          OR push_bit (CTRL_LEN i) (CTRL_LEN_VAL (hw_len bp))))
               (sys_pokeuser (hw_tid bp) (DR_BASE + of_nat i * DR_SIZE) (hw_addr bp) w2)))"

primrec hw_registered :: "u64 \<Rightarrow> int \<Rightarrow> hardware_breakpoint list \<Rightarrow> bool" where
  "hw_registered address tid [] = False"
| "hw_registered address tid (b # bs) =
     (if hw_addr b = address \<and> hw_tid b = tid then True else hw_registered address tid bs)"

definition register_hw_breakpoint ::
  "int \<Rightarrow> u64 \<Rightarrow> char \<times> char \<Rightarrow> 8 word \<Rightarrow> 'r global_state \<Rightarrow> 'r tracee \<Rightarrow> 'r global_state \<times> 'r tracee" where
  "register_hw_breakpoint tid address type len state w =
     (if hw_registered address tid (hw_b_HEAD state)
      then (state, perror ''Breakpoint already registered'' w)
      else
        (state\<lparr>hw_b_HEAD :=
           \<lparr>hw_addr = address, hw_tid = tid, hw_enabled = True, hw_type = type, hw_len = len\<rparr>
           # hw_b_HEAD state\<rparr>,
         install_hardware_breakpoint
           \<lparr>hw_addr = address, hw_tid = tid, hw_enabled = True, hw_type = type, hw_len = len\<rparr> w))"

section \<open>Concrete instances\<close>

text \<open>
  Modelled from the spec: the architecture macros are defined by the build of the file,
  which is not part of the sources at hand.  This instance follows the spec's
  description of x86_64 (\<open>INSTALL_BREAKPOINT\<close> overlays the one-byte trap encoding on
  the low byte of the word and preserves the rest; the instruction pointer is a field
  of the register block) with the architecture's opcodes: \<open>0xCC\<close> for the trap,
  \<open>0xE8\<close> for a call, \<open>0xC3\<close>, \<open>0xCB\<close>, \<open>0xC2\<close> and \<open>0xCA\<close> for a return.  The
  register block is reduced to the instruction pointer.  It serves to run the
  embedding on concrete inputs; the general theorems hold for every instance.
\<close>

definition demo_arch :: "u64 arch" where
  "demo_arch =
     \<lparr>INSTRUCTION_POINTER = (\<lambda>regs. regs),
      INSTALL_BREAKPOINT = (\<lambda>instruction. (instruction AND 0xFFFFFFFFFFFFFF00) OR 0xCC),
      IS_SW_BREAKPOINT = (\<lambda>instruction. instruction = 0xCC),
      IS_CALL_INSTRUCTION = (\<lambda>window. window AND 0xFF = 0xE8),
      IS_RET_INSTRUCTION = (\<lambda>instruction. instruction = 0xC3 \<or> instruction = 0xCB
                                         \<or> instruction = 0xC2 \<or> instruction = 0xCA),
      FPREGS_AVX = 0\<rparr>"

text \<open>
  A kernel in which every request succeeds, a wait on \<open>pid\<close> reports \<open>pid\<close> stopped by
  \<open>SIGTRAP\<close> (status 1407), the process group of every process is 1, and the tracee
  makes no visible progress.  A wait on the group, \<open>waitpid(-1, ...)\<close>, thus returns
  -1.
\<close>

definition demo_kernel :: "u64 kernel" where
  "demo_kernel =
     \<lparr>setregs_ok = (\<lambda>tid regs w. True),
      getregs_ok = (\<lambda>tid w. True),
      singlestep_ok = (\<lambda>tid w. True),
      cont_ok = (\<lambda>tid w. True),
      waitpid_result = (\<lambda>pid options w. (pid, 1407)),
      getpgid_result = (\<lambda>pid w. 1),
      tracee_progress = (\<lambda>w. w),
      fresh_regs = 0,
      fresh_int = 0\<rparr>"

text \<open>The same kernel, except that no thread can be single-stepped.\<close>

definition stuck_kernel :: "u64 kernel" where
  "stuck_kernel = demo_kernel\<lparr>singlestep_ok := (\<lambda>tid w. False)\<rparr>"

definition boot_tracee :: "u64 tracee" where
  "boot_tracee =
     \<lparr>mem = (\<lambda>a. 0), uarea = (\<lambda>tid off. 0), kregs = (\<lambda>tid. 0),
      writable = (\<lambda>pid a. True), calls = [], diag = []\<rparr>"

definition empty_state :: "u64 global_state" where
  "empty_state =
     \<lparr>t_HEAD = [], dead_t_HEAD = [], sw_b_HEAD = [], hw_b_HEAD = [],
      handle_syscall_enabled = False\<rparr>"

definition thread_at :: "int \<Rightarrow> u64 \<Rightarrow> u64 thread" where
  "thread_at tid ip = \<lparr>t_tid = tid, t_regs = ip, t_fpregs_type = 0, t_signal_to_forward = 0\<rparr>"

text \<open>
  A live thread stopped on the address of a breakpoint that has been disabled.
\<close>

definition disabled_hit_state :: "u64 global_state" where
  "disabled_hit_state =
     empty_state\<lparr>t_HEAD := [thread_at 1 0x1000],
                 sw_b_HEAD := [\<lparr>sw_addr = 0x1000, sw_instruction = 0x90,
                                sw_patched_instruction = 0xCC, sw_enabled = False\<rparr>]\<rparr>"

text \<open>
  Two breakpoints one byte apart; and three breakpoints of which the first two are four
  bytes apart, with a live thread that has a signal to forward.  All are registered
  through \<open>register_breakpoint\<close> in a tracee whose memory is all zero.
\<close>

definition overlap_registered :: "u64 global_state \<times> u64 tracee" where
  "overlap_registered =
     run_bp_ops demo_arch [Register 1 0x1000, Register 1 0x1001]
       (empty_state\<lparr>t_HEAD := [thread_at 1 0x2000]\<rparr>, boot_tracee)"

definition near_registered :: "u64 global_state \<times> u64 tracee" where
  "near_registered =
     run_bp_ops demo_arch [Register 1 0x1010, Register 1 0x1000, Register 1 0x1004]
       (empty_state\<lparr>t_HEAD := [(thread_at 1 0x2000)\<lparr>t_signal_to_forward := 5\<rparr>]\<rparr>, boot_tracee)"

text \<open>Three breakpoints registered and patched in.\<close>

definition three_registered :: "u64 global_state \<times> u64 tracee" where
  "three_registered =
     run_bp_ops demo_arch [Register 1 0x1000, Register 1 0x2000, Register 1 0x3000]
       (empty_state, boot_tracee)"

text \<open>A breakpoint registered, patched in, and then disabled.\<close>

definition once_registered :: "u64 global_state \<times> u64 tracee" where
  "once_registered =
     run_bp_ops demo_arch [Register 1 0x1000, Disable 0x1000] (empty_state, boot_tracee)"

text \<open>
  Four execute breakpoints registered for thread 7, one after the other, through
  \<open>register_hw_breakpoint\<close>: its four debug registers are then occupied.
\<close>

definition four_hw :: "u64 global_state \<times> u64 tracee" where
  "four_hw =
     fold (\<lambda>a s. register_hw_breakpoint 7 a (CHR ''x'', CHR 0x00) 1 (fst s) (snd s))
       [0x4000, 0x4008, 0x4010, 0x4018] (empty_state, boot_tracee)"

text \<open>
  For \<open>stepping_finish\<close>: a live thread at \<open>0x2000\<close> and an enabled breakpoint at
  \<open>0x1000\<close> whose original word is \<open>0x90\<close>; a tracee whose byte at \<open>0x2001\<close> is a
  return instruction; and a kernel in which every thread has advanced by one byte
  whenever a wait returns.
\<close>

definition finish_state :: "u64 global_state" where
  "finish_state =
     empty_state\<lparr>t_HEAD := [thread_at 1 0x2000],
                 sw_b_HEAD := [\<lparr>sw_addr = 0x1000, sw_instruction = 0x90,
                                sw_patched_instruction = 0xCC, sw_enabled = True\<rparr>]\<rparr>"

definition ret_tracee :: "u64 tracee" where
  "ret_tracee = boot_tracee\<lparr>mem := (mem boot_tracee)(0x2001 := 0xC3)\<rparr>"

definition walking_kernel :: "u64 kernel" where
  "walking_kernel =
     demo_kernel\<lparr>tracee_progress := (\<lambda>w. w\<lparr>kregs := (\<lambda>tid. kregs w tid + 1)\<rparr>)\<rparr>"

lemmas eval_defs = run_bp_ops_def register_breakpoint_def unregister_breakpoint_def
  enable_breakpoint_def disable_breakpoint_def sys_peekdata_def sys_pokedata_def
  sw_insert_def empty_state_def boot_tracee_def demo_arch_def demo_kernel_def logcall_def
  thread_at_def cont_all_and_set_bps_def prepare_for_run_def setregs_def sys_cont_def
  sys_singlestep_def sys_waitpid_def getregs_def perror_def load64_def store64_def

lemmas hw_defs = register_hw_breakpoint_def install_hardware_breakpoint_def sys_peekuser_def
  sys_pokeuser_def DR_BASE_def DR_SIZE_def CTRL_LOCAL_def CTRL_COND_def CTRL_COND_VAL_def
  CTRL_LEN_def CTRL_LEN_VAL_def logcall_def perror_def empty_state_def boot_tracee_def

section \<open>Memory words: reading back what was written\<close>

lemma low8_split: "(ucast (ucast w :: 8 word) :: u64) OR push_bit 8 (drop_bit 8 w) = w"
proof (rule bit_word_eqI)
  fix n assume n: "n < LENGTH(64)"
  show "bit ((ucast (ucast w :: 8 word) :: u64) OR push_bit 8 (drop_bit 8 w)) n = bit w n"
  proof (cases "n < 8")
    case True
    then show ?thesis by (simp add: bit_simps)
  next
    case False
    then have "8 + (n - 8) = n" by simp
    with False n show ?thesis by (simp add: bit_simps)
  qed
qed

lemma top8: "(ucast (ucast (drop_bit 56 w) :: 8 word) :: u64) = drop_bit 56 (w :: u64)"
  by (rule bit_word_eqI) (auto simp: bit_simps dest: bit_imp_le_length)

lemma bytes_join_nested:
  "(ucast (ucast v :: 8 word) :: u64) OR push_bit 8 (ucast (ucast (drop_bit 8 v) :: 8 word)
   OR push_bit 8 (ucast (ucast (drop_bit 16 v) :: 8 word)
   OR push_bit 8 (ucast (ucast (drop_bit 24 v) :: 8 word)
   OR push_bit 8 (ucast (ucast (drop_bit 32 v) :: 8 word)
   OR push_bit 8 (ucast (ucast (drop_bit 40 v) :: 8 word)
   OR push_bit 8 (ucast (ucast (drop_bit 48 v) :: 8 word)
   OR push_bit 8 (ucast (ucast (drop_bit 56 v) :: 8 word)))))))) = v"
proof -
  have s: "(ucast (ucast (drop_bit n v) :: 8 word) :: u64) OR push_bit 8 (drop_bit (n + 8) v)
           = drop_bit n v" for n
    using low8_split [of "drop_bit n v"] by (simp add: drop_bit_drop_bit add.commute)
  note t = s [of 48, simplified] s [of 40, simplified] s [of 32, simplified]
    s [of 24, simplified] s [of 16, simplified] s [of 8, simplified] low8_split [of v]
  show ?thesis
    by (simp only: top8 t)
qed

lemma store64_inside:
  "store64 m a v a = ucast v"
  "store64 m a v (a + 1) = ucast (drop_bit 8 v)"
  "store64 m a v (a + 2) = ucast (drop_bit 16 v)"
  "store64 m a v (a + 3) = ucast (drop_bit 24 v)"
  "store64 m a v (a + 4) = ucast (drop_bit 32 v)"
  "store64 m a v (a + 5) = ucast (drop_bit 40 v)"
  "store64 m a v (a + 6) = ucast (drop_bit 48 v)"
  "store64 m a v (a + 7) = ucast (drop_bit 56 v)"
  by (simp_all add: store64_def)

lemma load_store_same: "load64 (store64 m a v) a = v"
  unfolding load64_def
  by (simp only: store64_inside bytes_join_nested)

lemma not_8_le_1: "\<not> (8 :: u64) \<le> 1"
  by (simp add: word_le_nat_alt)

lemma store64_outside: "8 \<le> x - b \<Longrightarrow> store64 m b v x = m x"
  by (auto simp: store64_def not_8_le_1)

lemma apart_byte:
  assumes "apart a b" and "i < 8"
  shows "8 \<le> a + i - b"
  using assms unfolding apart_def
  by unat_arith

lemma load_store_apart:
  assumes "apart a b"
  shows "load64 (store64 m b v) a = load64 m a"
proof -
  have "store64 m b v (a + i) = m (a + i)" if "i < 8" for i
    using apart_byte [OF assms that] by (rule store64_outside)
  from this [of 0] this [of 1] this [of 2] this [of 3] this [of 4] this [of 5] this [of 6] this [of 7]
  show ?thesis by (simp add: load64_def)
qed

section \<open>What each system call leaves alone\<close>

lemma mem_sys_pokedata:
  "mem (sys_pokedata pid a v w) = (if writable w pid a then store64 (mem w) a v else mem w)"
  by (simp add: sys_pokedata_def logcall_def)

lemma writable_sys_pokedata: "writable (sys_pokedata pid a v w) = writable w"
  by (simp add: sys_pokedata_def logcall_def)

lemma writable_sys_cont: "writable (snd (sys_cont K sysc tid sig w)) = writable w"
  by (simp add: sys_cont_def logcall_def)

lemma writable_perror: "writable (perror s w) = writable w"
  by (simp add: perror_def)

lemma calls_sys_pokedata: "calls (sys_pokedata pid a v w) = calls w @ [Pokedata pid a v]"
  by (simp add: sys_pokedata_def logcall_def)

lemma mem_sys_cont: "mem (snd (sys_cont K sysc tid sig w)) = mem w"
  by (simp add: sys_cont_def logcall_def)

lemma mem_perror: "mem (perror s w) = mem w"
  by (simp add: perror_def)

lemma calls_perror: "calls (perror s w) = calls w"
  by (simp add: perror_def)

lemma calls_setregs: "calls (snd (setregs K tid regs w)) = calls w @ [Setregs tid]"
  by (simp add: setregs_def logcall_def)

lemma calls_sys_waitpid:
  "calls (snd (snd (sys_waitpid K pid options status w))) = calls w @ [Waitpid pid options]"
  by (simp add: sys_waitpid_def Let_def logcall_def)

lemma calls_sys_getpgid: "calls (snd (sys_getpgid K pid w)) = calls w @ [Getpgid pid]"
  by (simp add: sys_getpgid_def logcall_def)

lemma flush_regs_calls:
  "calls (flush_regs K msg ts w) = calls w @ map (\<lambda>t. Setregs (t_tid t)) ts"
  by (induction ts arbitrary: w) (simp_all add: case_prod_beta calls_perror calls_setregs)

section \<open>The software breakpoint table stays sorted\<close>

lemma sw_enable_first_addrs:
  "sw_enable_first a bs = Some l \<Longrightarrow> map sw_addr l = map sw_addr bs"
  by (induction bs arbitrary: l) (auto split: if_splits)

lemma sw_enable_first_None: "(sw_enable_first a bs = None) = (a \<notin> sw_addr ` set bs)"
  by (induction bs) auto

lemma sw_enable_first_split:
  "sw_enable_first a bs = Some l \<Longrightarrow>
   \<exists>xs b ys. bs = xs @ b # ys \<and> a \<notin> sw_addr ` set xs \<and> sw_addr b = a
             \<and> l = xs @ b\<lparr>sw_enabled := True\<rparr> # ys"
proof (induction bs arbitrary: l)
  case Nil
  then show ?case by simp
next
  case (Cons c cs)
  show ?case
  proof (cases "sw_addr c = a")
    case True
    with Cons.prems have "l = c\<lparr>sw_enabled := True\<rparr> # cs" by simp
    with True show ?thesis by (intro exI [of _ "[]"] exI [of _ c] exI [of _ cs]) simp
  next
    case False
    with Cons.prems obtain l' where l': "sw_enable_first a cs = Some l'" "l = c # l'"
      by auto
    from Cons.IH [OF l'(1)] obtain xs b ys where
      "cs = xs @ b # ys" "a \<notin> sw_addr ` set xs" "sw_addr b = a"
      "l' = xs @ b\<lparr>sw_enabled := True\<rparr> # ys" by blast
    with False l'(2) show ?thesis
      by (intro exI [of _ "c # xs"] exI [of _ b] exI [of _ ys]) simp
  qed
qed

lemma set_sw_insert_after:
  "set (sw_insert_after b prev ns) = insert b (insert prev (set ns))"
  by (induction b prev ns rule: sw_insert_after.induct) auto

lemma sw_insert_after_sorted:
  "sorted_wrt (<) (map sw_addr (prev # ns)) \<Longrightarrow> sw_addr prev < sw_addr b \<Longrightarrow>
   sw_addr b \<notin> sw_addr ` set ns \<Longrightarrow>
   sorted_wrt (<) (map sw_addr (sw_insert_after b prev ns))"
proof (induction b prev ns rule: sw_insert_after.induct)
  case (1 b prev)
  then show ?case by simp
next
  case (2 b prev n ns)
  show ?case
  proof (cases "sw_addr n < sw_addr b")
    case True
    have "sorted_wrt (<) (map sw_addr (sw_insert_after b n ns))"
      using 2 True by simp
    moreover have "\<forall>x \<in> set (sw_insert_after b n ns). sw_addr prev < sw_addr x"
      using 2 by (auto simp: set_sw_insert_after)
    ultimately show ?thesis using True by simp
  next
    case False
    with 2 have "sw_addr b < sw_addr n" by auto
    with 2 False show ?thesis by auto
  qed
qed

lemma sw_insert_sorted:
  assumes "sorted_wrt (<) (map sw_addr l)" and "sw_addr b \<notin> sw_addr ` set l"
  shows "sorted_wrt (<) (map sw_addr (sw_insert b l))"
proof (cases l)
  case Nil
  then show ?thesis by (simp add: sw_insert_def)
next
  case (Cons h rest)
  show ?thesis
  proof (cases "sw_addr b < sw_addr h")
    case True
    with Cons assms show ?thesis by (auto simp: sw_insert_def)
  next
    case False
    with assms Cons have "sw_addr h < sw_addr b" by auto
    with assms Cons have "sorted_wrt (<) (map sw_addr (sw_insert_after b h rest))"
      by (intro sw_insert_after_sorted) auto
    with False Cons show ?thesis by (simp add: sw_insert_def)
  qed
qed

lemma set_sw_unlink: "set (sw_unlink a bs) \<subseteq> set bs"
  by (induction bs) auto

lemma sw_unlink_sorted:
  "sorted_wrt (<) (map sw_addr bs) \<Longrightarrow> sorted_wrt (<) (map sw_addr (sw_unlink a bs))"
  using set_sw_unlink [of a] by (induction bs) auto

lemma sw_set_enabled_addrs: "map sw_addr (sw_set_enabled v a bs) = map sw_addr bs"
  by (induction bs) auto

lemma register_breakpoint_sorted:
  assumes "sorted_wrt (<) (map sw_addr (sw_b_HEAD state))"
  shows "sorted_wrt (<) (map sw_addr (sw_b_HEAD (fst (register_breakpoint A pid a state w))))"
proof (cases "sw_enable_first a (sw_b_HEAD state)")
  case (Some l)
  then show ?thesis using assms sw_enable_first_addrs [OF Some]
    by (simp add: register_breakpoint_def sys_peekdata_def)
next
  case None
  then have "a \<notin> sw_addr ` set (sw_b_HEAD state)"
    by (simp add: sw_enable_first_None)
  with assms None show ?thesis
    by (simp add: register_breakpoint_def sys_peekdata_def sw_insert_sorted)
qed

lemma apply_bp_op_sorted:
  "sorted_wrt (<) (map sw_addr (sw_b_HEAD (fst s))) \<Longrightarrow>
   sorted_wrt (<) (map sw_addr (sw_b_HEAD (fst (apply_bp_op A op s))))"
  by (cases op; cases s)
     (simp_all add: register_breakpoint_sorted sw_unlink_sorted sw_set_enabled_addrs
        unregister_breakpoint_def enable_breakpoint_def disable_breakpoint_def)

lemma run_bp_ops_sorted:
  "sorted_wrt (<) (map sw_addr (sw_b_HEAD (fst s))) \<Longrightarrow>
   sorted_wrt (<) (map sw_addr (sw_b_HEAD (fst (run_bp_ops A ops s))))"
  unfolding run_bp_ops_def
  by (induction ops arbitrary: s) (simp_all add: apply_bp_op_sorted)

text \<open>
  Claim C5.  Whatever sequence of \<open>register_breakpoint\<close>, \<open>unregister_breakpoint\<close>,
  \<open>enable_breakpoint\<close> and \<open>disable_breakpoint\<close> calls is run on a table that is
  sorted strictly ascending by address (the empty table is), in any tracee and for any
  \<open>INSTALL_BREAKPOINT\<close>, the table is sorted strictly ascending by address afterwards,
  and so no two entries share an address.
\<close>

theorem sw_list_strictly_sorted:
  assumes "sorted_wrt (<) (map sw_addr (sw_b_HEAD state))"
  shows "sorted_wrt (<) (map sw_addr (sw_b_HEAD (fst (run_bp_ops A ops (state, w)))))
       \<and> distinct (map sw_addr (sw_b_HEAD (fst (run_bp_ops A ops (state, w)))))"
proof -
  have "sorted_wrt (<) (map sw_addr (sw_b_HEAD (fst (run_bp_ops A ops (state, w)))))"
    using assms run_bp_ops_sorted [of "(state, w)" A ops] by simp
  then show ?thesis by (simp add: strict_sorted_iff)
qed

theorem sw_list_strictly_sorted_witness:
  "sorted_wrt (<) (map sw_addr (sw_b_HEAD empty_state))
   \<and> sorted_wrt (<) (map sw_addr (sw_b_HEAD (fst (run_bp_ops demo_arch
        [Register 1 0x2000, Register 1 0x1000, Disable 0x2000, Register 1 0x1800,
         Register 1 0x2000, Unregister 0x1000, Enable 0x1800] (empty_state, boot_tracee)))))
   \<and> distinct (map sw_addr (sw_b_HEAD (fst (run_bp_ops demo_arch
        [Register 1 0x2000, Register 1 0x1000, Disable 0x2000, Register 1 0x1800,
         Register 1 0x2000, Unregister 0x1000, Enable 0x1800] (empty_state, boot_tracee)))))"
proof -
  have h: "sorted_wrt (<) (map sw_addr (sw_b_HEAD empty_state))"
    by (simp add: empty_state_def)
  show ?thesis
    using h sw_list_strictly_sorted [OF h, of demo_arch _ boot_tracee] by simp
qed

text \<open>The table that this sequence of calls produces.\<close>

lemma sw_list_after_demo_run:
  "map sw_addr (sw_b_HEAD (fst (run_bp_ops demo_arch
        [Register 1 0x2000, Register 1 0x1000, Disable 0x2000, Register 1 0x1800,
         Register 1 0x2000, Unregister 0x1000, Enable 0x1800] (empty_state, boot_tracee))))
   = [0x1800, 0x2000]"
  by (simp add: eval_defs)

section \<open>Unregistering and re-registering a software breakpoint\<close>

lemma sw_unlink_absent: "address \<notin> sw_addr ` set bs \<Longrightarrow> sw_unlink address bs = bs"
  by (induction bs) auto

lemma sw_unlink_first:
  "address \<notin> sw_addr ` set xs \<Longrightarrow> sw_addr b = address \<Longrightarrow>
   sw_unlink address (xs @ b # ys) = xs @ ys"
  by (induction xs) auto

text \<open>
  Claim C7.  \<open>unregister_breakpoint\<close> does nothing to the tracee: the tracee is the
  same after the call, so the word at every address is unchanged and no system call has
  been issued, whatever the state of the entry.  In the state it removes the first
  entry at the address from the table and nothing else: the entries before it and
  after it stay, in order, and every other field of the state is unchanged; when no
  entry has the address the state is unchanged.
\<close>

theorem unregister_breakpoint_frame:
  "snd (unregister_breakpoint address state w) = w
   \<and> load64 (mem (snd (unregister_breakpoint address state w))) a = load64 (mem w) a
   \<and> calls (snd (unregister_breakpoint address state w)) = calls w
   \<and> (address \<notin> sw_addr ` set (sw_b_HEAD state) \<longrightarrow>
        fst (unregister_breakpoint address state w) = state)
   \<and> (\<forall>xs b ys. sw_b_HEAD state = xs @ b # ys \<longrightarrow> address \<notin> sw_addr ` set xs \<longrightarrow>
          sw_addr b = address \<longrightarrow>
          fst (unregister_breakpoint address state w) = state\<lparr>sw_b_HEAD := xs @ ys\<rparr>)"
  by (simp add: unregister_breakpoint_def sw_unlink_absent sw_unlink_first)

theorem unregister_breakpoint_frame_witness:
  "sw_b_HEAD (fst three_registered)
     = [\<lparr>sw_addr = 0x1000, sw_instruction = 0, sw_patched_instruction = 0xCC, sw_enabled = True\<rparr>,
        \<lparr>sw_addr = 0x2000, sw_instruction = 0, sw_patched_instruction = 0xCC, sw_enabled = True\<rparr>,
        \<lparr>sw_addr = 0x3000, sw_instruction = 0, sw_patched_instruction = 0xCC, sw_enabled = True\<rparr>]
   \<and> load64 (mem (snd three_registered)) 0x2000 = 0xCC
   \<and> sw_b_HEAD (fst (unregister_breakpoint 0x2000 (fst three_registered) (snd three_registered)))
     = [\<lparr>sw_addr = 0x1000, sw_instruction = 0, sw_patched_instruction = 0xCC, sw_enabled = True\<rparr>,
        \<lparr>sw_addr = 0x3000, sw_instruction = 0, sw_patched_instruction = 0xCC, sw_enabled = True\<rparr>]
   \<and> load64 (mem (snd (unregister_breakpoint 0x2000 (fst three_registered) (snd three_registered))))
        0x2000 = 0xCC
   \<and> fst (unregister_breakpoint 0x2800 (fst three_registered) (snd three_registered))
     = fst three_registered"
proof -
  let ?b1 = "\<lparr>sw_addr = 0x1000, sw_instruction = 0, sw_patched_instruction = 0xCC, sw_enabled = True\<rparr>"
  let ?b2 = "\<lparr>sw_addr = 0x2000, sw_instruction = 0, sw_patched_instruction = 0xCC, sw_enabled = True\<rparr>"
  let ?b3 = "\<lparr>sw_addr = 0x3000, sw_instruction = 0, sw_patched_instruction = 0xCC, sw_enabled = True\<rparr>"
  have l: "sw_b_HEAD (fst three_registered) = [?b1] @ ?b2 # [?b3]"
    by (simp add: three_registered_def eval_defs)
  have m: "load64 (mem (snd three_registered)) 0x2000 = 0xCC"
    by (simp add: three_registered_def eval_defs)
  note u = unregister_breakpoint_frame [of "0x2000" "fst three_registered" "snd three_registered" "0x2000"]
  note v = unregister_breakpoint_frame [of "0x2800" "fst three_registered" "snd three_registered" "0x2000"]
  from u l have "fst (unregister_breakpoint 0x2000 (fst three_registered) (snd three_registered))
                 = (fst three_registered)\<lparr>sw_b_HEAD := [?b1] @ [?b3]\<rparr>"
    by (elim conjE allE [of _ "[?b1]"] allE [of _ ?b2] allE [of _ "[?b3]"]) simp
  moreover from u m
  have "load64 (mem (snd (unregister_breakpoint 0x2000 (fst three_registered) (snd three_registered))))
          0x2000 = 0xCC"
    by simp
  moreover from v l
  have "fst (unregister_breakpoint 0x2800 (fst three_registered) (snd three_registered))
        = fst three_registered"
    by simp
  ultimately show ?thesis using l m by simp
qed

text \<open>
  An enabled breakpoint that is unregistered stays patched into the code: the word at
  its address is still the patched one, and the table is empty.
\<close>

lemma unregister_leaves_patch:
  "load64 (mem (snd (run_bp_ops demo_arch [Register 1 0x1000, Unregister 0x1000]
                       (empty_state, boot_tracee)))) 0x1000 = 0xCC
   \<and> sw_b_HEAD (fst (run_bp_ops demo_arch [Register 1 0x1000, Unregister 0x1000]
                       (empty_state, boot_tracee))) = []"
  by (simp add: eval_defs)

text \<open>
  Claim C10.  When the table already has an entry at the address,
  \<open>register_breakpoint\<close> changes nothing in the state but the \<open>enabled\<close> flag of the
  first such entry, which it sets: the addresses, the stored original words and the
  stored patched words of all entries are what they were.  The call has nevertheless
  read the word at the address and written its patched form back.
\<close>

theorem register_breakpoint_existing:
  assumes "address \<in> sw_addr ` set (sw_b_HEAD state)"
  shows "(\<exists>xs b ys.
            sw_b_HEAD state = xs @ b # ys \<and> address \<notin> sw_addr ` set xs \<and> sw_addr b = address
            \<and> fst (register_breakpoint A pid address state w)
                = state\<lparr>sw_b_HEAD := xs @ b\<lparr>sw_enabled := True\<rparr> # ys\<rparr>)
       \<and> map sw_instruction (sw_b_HEAD (fst (register_breakpoint A pid address state w)))
           = map sw_instruction (sw_b_HEAD state)
       \<and> map sw_patched_instruction (sw_b_HEAD (fst (register_breakpoint A pid address state w)))
           = map sw_patched_instruction (sw_b_HEAD state)
       \<and> map sw_addr (sw_b_HEAD (fst (register_breakpoint A pid address state w)))
           = map sw_addr (sw_b_HEAD state)
       \<and> calls (snd (register_breakpoint A pid address state w))
           = calls w @ [Peekdata pid address,
                        Pokedata pid address (INSTALL_BREAKPOINT A (load64 (mem w) address))]"
proof -
  from assms obtain l where l: "sw_enable_first address (sw_b_HEAD state) = Some l"
    using sw_enable_first_None [of address "sw_b_HEAD state"]
    by (cases "sw_enable_first address (sw_b_HEAD state)") auto
  from sw_enable_first_split [OF l] obtain xs b ys where s:
    "sw_b_HEAD state = xs @ b # ys" "address \<notin> sw_addr ` set xs" "sw_addr b = address"
    "l = xs @ b\<lparr>sw_enabled := True\<rparr> # ys" by blast
  have r: "fst (register_breakpoint A pid address state w) = state\<lparr>sw_b_HEAD := l\<rparr>"
    using l by (simp add: register_breakpoint_def sys_peekdata_def)
  have "\<exists>xs b ys.
           sw_b_HEAD state = xs @ b # ys \<and> address \<notin> sw_addr ` set xs \<and> sw_addr b = address
           \<and> fst (register_breakpoint A pid address state w)
               = state\<lparr>sw_b_HEAD := xs @ b\<lparr>sw_enabled := True\<rparr> # ys\<rparr>"
    using s r by blast
  moreover have "map sw_instruction (sw_b_HEAD (fst (register_breakpoint A pid address state w)))
           = map sw_instruction (sw_b_HEAD state)"
    using s r by simp
  moreover have "map sw_patched_instruction (sw_b_HEAD (fst (register_breakpoint A pid address state w)))
           = map sw_patched_instruction (sw_b_HEAD state)"
    using s r by simp
  moreover have "map sw_addr (sw_b_HEAD (fst (register_breakpoint A pid address state w)))
           = map sw_addr (sw_b_HEAD state)"
    using s r by simp
  moreover have "calls (snd (register_breakpoint A pid address state w))
           = calls w @ [Peekdata pid address,
                        Pokedata pid address (INSTALL_BREAKPOINT A (load64 (mem w) address))]"
    using l by (simp add: register_breakpoint_def sys_peekdata_def sys_pokedata_def logcall_def)
  ultimately show ?thesis by blast
qed

theorem register_breakpoint_existing_witness:
  "0x1000 \<in> sw_addr ` set (sw_b_HEAD (fst once_registered))
   \<and> load64 (mem (snd once_registered)) 0x1000 = 0xCC
   \<and> sw_b_HEAD (fst once_registered)
       = [\<lparr>sw_addr = 0x1000, sw_instruction = 0, sw_patched_instruction = 0xCC, sw_enabled = False\<rparr>]
   \<and> map sw_instruction (sw_b_HEAD (fst (register_breakpoint demo_arch 1 0x1000
          (fst once_registered) (snd once_registered)))) = [0]
   \<and> map sw_patched_instruction (sw_b_HEAD (fst (register_breakpoint demo_arch 1 0x1000
          (fst once_registered) (snd once_registered)))) = [0xCC]
   \<and> map sw_addr (sw_b_HEAD (fst (register_breakpoint demo_arch 1 0x1000
          (fst once_registered) (snd once_registered)))) = [0x1000]"
proof -
  have l: "sw_b_HEAD (fst once_registered)
       = [\<lparr>sw_addr = 0x1000, sw_instruction = 0, sw_patched_instruction = 0xCC, sw_enabled = False\<rparr>]"
    by (simp add: once_registered_def eval_defs)
  have m: "load64 (mem (snd once_registered)) 0x1000 = 0xCC"
    by (simp add: once_registered_def eval_defs)
  have h: "0x1000 \<in> sw_addr ` set (sw_b_HEAD (fst once_registered))"
    by (simp add: l)
  from register_breakpoint_existing [OF h, of demo_arch 1 "snd once_registered"] l m h
  show ?thesis by simp
qed

section \<open>Bulk patching and un-patching\<close>

lemma poke_enabled_append:
  "poke_enabled f pid (xs @ ys) w = poke_enabled f pid ys (poke_enabled f pid xs w)"
  by (induction xs arbitrary: w) simp_all

lemma poke_enabled_mem_frame:
  "\<forall>c \<in> set bs. sw_enabled c \<longrightarrow> apart a (sw_addr c) \<Longrightarrow>
   load64 (mem (poke_enabled f pid bs w)) a = load64 (mem w) a"
  by (induction bs arbitrary: w) (simp_all add: mem_sys_pokedata load_store_apart)

lemma poke_enabled_writable: "writable (poke_enabled f pid bs w) = writable w"
  by (induction bs arbitrary: w) (simp_all add: writable_sys_pokedata)

lemma poke_enabled_last_write:
  assumes "sw_enabled b"
    and "writable w pid (sw_addr b)"
    and "\<forall>c \<in> set ys. sw_enabled c \<longrightarrow> apart (sw_addr b) (sw_addr c)"
  shows "load64 (mem (poke_enabled f pid (xs @ b # ys) w)) (sw_addr b) = f b"
  using assms
  by (simp add: poke_enabled_append poke_enabled_mem_frame mem_sys_pokedata load_store_same
      poke_enabled_writable)

lemma lt8_cases:
  "(i :: u64) < 8 \<Longrightarrow> i = 0 \<or> i = 1 \<or> i = 2 \<or> i = 3 \<or> i = 4 \<or> i = 5 \<or> i = 6 \<or> i = 7"
  by unat_arith

lemma store64_byte:
  assumes "i < 8"
  shows "store64 m a v (a + i) = ucast (drop_bit (8 * unat i) v)"
  using lt8_cases [OF assms] by (elim disjE) (simp_all add: store64_inside)

lemma poke_enabled_byte_frame:
  "\<forall>c \<in> set bs. sw_enabled c \<longrightarrow> 8 \<le> x - sw_addr c \<Longrightarrow>
   mem (poke_enabled f pid bs w) x = mem w x"
  by (induction bs arbitrary: w) (simp_all add: mem_sys_pokedata store64_outside)

lemma poke_enabled_last_byte:
  assumes "sw_enabled b"
    and "writable w pid (sw_addr b)"
    and "i < 8"
    and "\<forall>c \<in> set ys. sw_enabled c \<longrightarrow> 8 \<le> sw_addr b + i - sw_addr c"
  shows "mem (poke_enabled f pid (xs @ b # ys) w) (sw_addr b + i) = ucast (drop_bit (8 * unat i) (f b))"
  using assms
  by (simp add: poke_enabled_append poke_enabled_byte_frame mem_sys_pokedata store64_byte
      poke_enabled_writable)

lemma below_is_clear:
  assumes "(x :: u64) < c" and "c \<le> 0xFFFFFFFFFFFFFFF8"
  shows "8 \<le> x - c"
  using assms
  by (simp add: word_le_nat_alt word_less_nat_alt unat_sub_if_size word_size)

lemma poke_enabled_calls:
  "calls (poke_enabled f pid bs w)
   = calls w @ map (\<lambda>b. Pokedata pid (sw_addr b) (f b)) (filter sw_enabled bs)"
  by (induction bs arbitrary: w) (simp_all add: calls_sys_pokedata)

section \<open>Resuming: \<open>prepare_for_run\<close> and \<open>cont_all_and_set_bps\<close>\<close>

text \<open>The hit test of \<open>prepare_for_run\<close> looks at addresses only.\<close>

lemma sw_hit_iff: "sw_hit ip bps = (ip \<in> sw_addr ` set bps)"
  by (induction bps) auto

text \<open>
  Claim C1.  The claim says that a live thread whose cached instruction pointer is the
  address of a disabled entry is not single-stepped.  In \<open>disabled_hit_state\<close> thread 1
  is at \<open>0x1000\<close> and the only entry, at \<open>0x1000\<close>, is disabled; \<open>prepare_for_run\<close>
  flushes the registers, single-steps thread 1 and waits for it, and writes nothing
  to memory.
\<close>

theorem prepare_for_run_steps_disabled:
  "prepare_for_run demo_arch demo_kernel 1 disabled_hit_state boot_tracee
   = (1407, boot_tracee\<lparr>kregs := (kregs boot_tracee)(1 := 0x1000),
                          calls := [Setregs 1, Singlestep 1 0, Waitpid 1 0]\<rparr>)"
  by (simp add: disabled_hit_state_def eval_defs)

lemma cont_threads_mem: "mem (snd (cont_threads K sysc ts w)) = mem w"
  by (induction ts arbitrary: w) (simp_all add: case_prod_beta mem_sys_cont mem_perror)

lemma cont_threads_signals:
  "\<forall>t \<in> set (fst (cont_threads K sysc ts w)). t_signal_to_forward t = 0"
  by (induction ts arbitrary: w) (simp_all add: case_prod_beta)

lemma cont_threads_writable: "writable (snd (cont_threads K sysc ts w)) = writable w"
  by (induction ts arbitrary: w) (simp_all add: case_prod_beta writable_sys_cont writable_perror)

lemma calls_sys_cont:
  "calls (snd (sys_cont K sysc tid sig w))
   = calls w @ [if sysc then Syscall tid sig else Cont tid sig]"
  by (simp add: sys_cont_def logcall_def)

lemma cont_threads_calls:
  "calls (snd (cont_threads K sysc ts w))
   = calls w @ map (\<lambda>t. if sysc then Syscall (t_tid t) (t_signal_to_forward t)
                                else Cont (t_tid t) (t_signal_to_forward t)) ts"
  by (induction ts arbitrary: w) (simp_all add: case_prod_beta calls_sys_cont calls_perror)

lemma cont_threads_tids:
  "map t_tid (fst (cont_threads K sysc ts w)) = map t_tid ts"
  by (induction ts arbitrary: w) (simp_all add: case_prod_beta)

text \<open>
  Claim C3, as stated, fails when two enabled breakpoints overlap.  Breakpoints are
  registered at \<open>0x1000\<close> and \<open>0x1001\<close> in zeroed memory; both get the patched word
  \<open>0xCC\<close>.  \<open>cont_all_and_set_bps\<close> returns 0, and the word at \<open>0x1000\<close> is
  \<open>0xCCCC\<close>: its second byte is the trap byte of the other breakpoint.
\<close>

theorem cont_all_overlap_counterexample:
  "fst (cont_all_and_set_bps demo_arch demo_kernel 1 (fst overlap_registered) (snd overlap_registered)) = 0
   \<and> sw_b_HEAD (fst overlap_registered)
     = [\<lparr>sw_addr = 0x1000, sw_instruction = 0, sw_patched_instruction = 0xCC, sw_enabled = True\<rparr>,
        \<lparr>sw_addr = 0x1001, sw_instruction = 0, sw_patched_instruction = 0xCC, sw_enabled = True\<rparr>]
   \<and> load64 (mem (snd (snd (cont_all_and_set_bps demo_arch demo_kernel 1
                (fst overlap_registered) (snd overlap_registered))))) 0x1000 = 0xCCCC
   \<and> load64 (mem (snd (snd (cont_all_and_set_bps demo_arch demo_kernel 1
                (fst overlap_registered) (snd overlap_registered))))) 0x1000 \<noteq> 0xCC"
  by (simp add: overlap_registered_def eval_defs)

text \<open>
  Claim C3, amended.  When \<open>cont_all_and_set_bps\<close> returns a status other than -1,
  every live thread has \<open>signal_to_forward = 0\<close> (the live threads and the breakpoint
  table are otherwise the same).  The last system calls of the call are the writes of
  \<open>patched_instruction\<close> at the address of every enabled software breakpoint, in table
  order, followed by one continue request per live thread.  Where the write at an
  enabled breakpoint is accepted, each byte of the word at its address that the word
  of no later enabled entry covers holds the corresponding byte of its
  \<open>patched_instruction\<close>.  Hence the whole word is the \<open>patched_instruction\<close> when
  every later enabled entry lies at least 8 bytes away; and on a table sorted by
  address in which no enabled word wraps around the end of the address space, the
  first byte at every enabled breakpoint is the low byte of its
  \<open>patched_instruction\<close>, overlapped or not.
\<close>

theorem cont_all_patches_and_clears:
  assumes "cont_all_and_set_bps A K pid state w = (status, state', w')"
    and "status \<noteq> - 1"
  shows "(\<forall>t \<in> set (t_HEAD state'). t_signal_to_forward t = 0)
       \<and> map t_tid (t_HEAD state') = map t_tid (t_HEAD state)
       \<and> sw_b_HEAD state' = sw_b_HEAD state
       \<and> (\<exists>before. calls w' =
             before
             @ map (\<lambda>b. Pokedata pid (sw_addr b) (sw_patched_instruction b))
                 (filter sw_enabled (sw_b_HEAD state))
             @ map (\<lambda>t. if handle_syscall_enabled state
                         then Syscall (t_tid t) (t_signal_to_forward t)
                         else Cont (t_tid t) (t_signal_to_forward t)) (t_HEAD state))
       \<and> (\<forall>xs b ys i. sw_b_HEAD state = xs @ b # ys \<longrightarrow> sw_enabled b \<longrightarrow>
              writable w' pid (sw_addr b) \<longrightarrow> i < 8 \<longrightarrow>
              (\<forall>c \<in> set ys. sw_enabled c \<longrightarrow> 8 \<le> sw_addr b + i - sw_addr c) \<longrightarrow>
              mem w' (sw_addr b + i) = ucast (drop_bit (8 * unat i) (sw_patched_instruction b)))
       \<and> (\<forall>xs b ys. sw_b_HEAD state = xs @ b # ys \<longrightarrow> sw_enabled b \<longrightarrow>
              writable w' pid (sw_addr b) \<longrightarrow>
              (\<forall>c \<in> set ys. sw_enabled c \<longrightarrow> apart (sw_addr b) (sw_addr c)) \<longrightarrow>
              load64 (mem w') (sw_addr b) = sw_patched_instruction b)
       \<and> (sorted_wrt (<) (map sw_addr (sw_b_HEAD state)) \<longrightarrow>
            (\<forall>c \<in> set (sw_b_HEAD state). sw_enabled c \<longrightarrow> sw_addr c \<le> 0xFFFFFFFFFFFFFFF8) \<longrightarrow>
            (\<forall>b \<in> set (sw_b_HEAD state). sw_enabled b \<longrightarrow> writable w' pid (sw_addr b) \<longrightarrow>
               mem w' (sw_addr b) = ucast (sw_patched_instruction b)))"
proof (cases "step_over_hits A K (sw_b_HEAD state) (t_HEAD state) 0
               (flush_regs K ''ptrace_setregs failed for thread'' (t_HEAD state) w)")
  case (Inl w1)
  with assms show ?thesis
    by (simp add: cont_all_and_set_bps_def prepare_for_run_def split: prod.splits)
next
  case (Inr r)
  obtain st w1 where r: "r = (st, w1)" by (cases r)
  let ?w2 = "poke_enabled sw_patched_instruction pid (sw_b_HEAD state) w1"
  let ?c = "cont_threads K (handle_syscall_enabled state) (t_HEAD state) ?w2"
  from assms(1) Inr r have st': "state' = state\<lparr>t_HEAD := fst ?c\<rparr>" and w': "w' = snd ?c"
    by (simp_all add: cont_all_and_set_bps_def prepare_for_run_def split: prod.splits)
  have m: "mem w' = mem ?w2" unfolding w' by (rule cont_threads_mem)
  have wr: "writable w' = writable w1"
    unfolding w' by (simp add: cont_threads_writable poke_enabled_writable)
  have sig: "\<forall>t \<in> set (t_HEAD state'). t_signal_to_forward t = 0"
    using st' cont_threads_signals [of K "handle_syscall_enabled state" "t_HEAD state" ?w2]
    by simp
  have tids: "map t_tid (t_HEAD state') = map t_tid (t_HEAD state)"
    using st' cont_threads_tids [of K "handle_syscall_enabled state" "t_HEAD state" ?w2]
    by simp
  have tab: "sw_b_HEAD state' = sw_b_HEAD state"
    using st' by simp
  have "calls w' =
          calls w1
          @ map (\<lambda>b. Pokedata pid (sw_addr b) (sw_patched_instruction b))
              (filter sw_enabled (sw_b_HEAD state))
          @ map (\<lambda>t. if handle_syscall_enabled state
                      then Syscall (t_tid t) (t_signal_to_forward t)
                      else Cont (t_tid t) (t_signal_to_forward t)) (t_HEAD state)"
    unfolding w' by (simp add: cont_threads_calls poke_enabled_calls)
  then have log: "\<exists>before. calls w' =
             before
             @ map (\<lambda>b. Pokedata pid (sw_addr b) (sw_patched_instruction b))
                 (filter sw_enabled (sw_b_HEAD state))
             @ map (\<lambda>t. if handle_syscall_enabled state
                         then Syscall (t_tid t) (t_signal_to_forward t)
                         else Cont (t_tid t) (t_signal_to_forward t)) (t_HEAD state)" ..
  have byte: "mem w' (sw_addr b + i) = ucast (drop_bit (8 * unat i) (sw_patched_instruction b))"
    if "sw_b_HEAD state = xs @ b # ys" "sw_enabled b" "writable w' pid (sw_addr b)" "i < 8"
      "\<forall>c \<in> set ys. sw_enabled c \<longrightarrow> 8 \<le> sw_addr b + i - sw_addr c"
    for xs b ys i
    using that by (simp add: m wr poke_enabled_last_byte)
  have word: "load64 (mem w') (sw_addr b) = sw_patched_instruction b"
    if "sw_b_HEAD state = xs @ b # ys" "sw_enabled b" "writable w' pid (sw_addr b)"
      "\<forall>c \<in> set ys. sw_enabled c \<longrightarrow> apart (sw_addr b) (sw_addr c)"
    for xs b ys
    using that by (simp add: m wr poke_enabled_last_write)
  have low: "mem w' (sw_addr b) = ucast (sw_patched_instruction b)"
    if srt: "sorted_wrt (<) (map sw_addr (sw_b_HEAD state))"
      and top: "\<forall>c \<in> set (sw_b_HEAD state). sw_enabled c \<longrightarrow> sw_addr c \<le> 0xFFFFFFFFFFFFFFF8"
      and b: "b \<in> set (sw_b_HEAD state)" "sw_enabled b" "writable w' pid (sw_addr b)"
    for b
  proof -
    from b(1) obtain xs ys where l: "sw_b_HEAD state = xs @ b # ys"
      by (auto simp: in_set_conv_decomp)
    have "\<forall>c \<in> set ys. sw_enabled c \<longrightarrow> 8 \<le> sw_addr b + 0 - sw_addr c"
    proof (intro ballI impI)
      fix c assume c: "c \<in> set ys" "sw_enabled c"
      from srt l c(1) have "sw_addr b < sw_addr c"
        by (auto simp: sorted_wrt_append)
      moreover from top l c have "sw_addr c \<le> 0xFFFFFFFFFFFFFFF8" by simp
      ultimately show "8 \<le> sw_addr b + 0 - sw_addr c"
        using below_is_clear by simp
    qed
    from byte [OF l b(2) b(3) _ this, of] show ?thesis by simp
  qed
  from sig tids tab log byte word low show ?thesis by blast
qed

theorem cont_all_patches_and_clears_witness:
  "fst (cont_all_and_set_bps demo_arch demo_kernel 1 (fst near_registered) boot_tracee) \<noteq> - 1
   \<and> map t_signal_to_forward (t_HEAD (fst near_registered)) = [5]
   \<and> map t_signal_to_forward (t_HEAD (fst (snd (cont_all_and_set_bps demo_arch demo_kernel 1
          (fst near_registered) boot_tracee)))) = [0]
   \<and> calls (snd (snd (cont_all_and_set_bps demo_arch demo_kernel 1 (fst near_registered) boot_tracee)))
       = [Setregs 1, Pokedata 1 0x1000 0xCC, Pokedata 1 0x1004 0xCC, Pokedata 1 0x1010 0xCC, Cont 1 5]
   \<and> mem boot_tracee 0x1000 = 0
   \<and> mem (snd (snd (cont_all_and_set_bps demo_arch demo_kernel 1 (fst near_registered) boot_tracee)))
        0x1000 = 0xCC
   \<and> load64 (mem boot_tracee) 0x1004 = 0
   \<and> load64 (mem (snd (snd (cont_all_and_set_bps demo_arch demo_kernel 1
          (fst near_registered) boot_tracee)))) 0x1004 = 0xCC
   \<and> load64 (mem (snd (snd (cont_all_and_set_bps demo_arch demo_kernel 1
          (fst near_registered) boot_tracee)))) 0x1010 = 0xCC"
proof -
  let ?b0 = "\<lparr>sw_addr = 0x1000, sw_instruction = 0, sw_patched_instruction = 0xCC, sw_enabled = True\<rparr>"
  let ?b1 = "\<lparr>sw_addr = 0x1004, sw_instruction = 0, sw_patched_instruction = 0xCC, sw_enabled = True\<rparr>"
  let ?b2 = "\<lparr>sw_addr = 0x1010, sw_instruction = 0, sw_patched_instruction = 0xCC, sw_enabled = True\<rparr>"
  obtain status state' w' where r:
    "cont_all_and_set_bps demo_arch demo_kernel 1 (fst near_registered) boot_tracee
     = (status, state', w')"
    by (cases "cont_all_and_set_bps demo_arch demo_kernel 1 (fst near_registered) boot_tracee")
  have l: "sw_b_HEAD (fst near_registered) = [?b0, ?b1, ?b2]"
    by (simp add: near_registered_def eval_defs)
  have l1: "sw_b_HEAD (fst near_registered) = [?b0] @ ?b1 # [?b2]"
    and l2: "sw_b_HEAD (fst near_registered) = [?b0, ?b1] @ ?b2 # []"
    by (simp_all add: l)
  have t: "map t_signal_to_forward (t_HEAD (fst near_registered)) = [5]"
      "length (t_HEAD (fst near_registered)) = 1"
    by (simp_all add: near_registered_def eval_defs)
  have st: "status \<noteq> - 1" and wr: "writable w' = (\<lambda>pid a. True)"
    and cl: "calls w' = [Setregs 1, Pokedata 1 0x1000 0xCC, Pokedata 1 0x1004 0xCC,
                         Pokedata 1 0x1010 0xCC, Cont 1 5]"
    using r by (auto simp add: near_registered_def eval_defs)
  have before: "mem boot_tracee 0x1000 = 0" "load64 (mem boot_tracee) 0x1004 = 0"
    by (simp_all add: boot_tracee_def load64_def)
  have ap: "apart 0x1004 0x1010" by (simp add: apart_def)
  have srt: "sorted_wrt (<) (map sw_addr (sw_b_HEAD (fst near_registered)))"
    and top: "\<forall>c \<in> set (sw_b_HEAD (fst near_registered)).
                sw_enabled c \<longrightarrow> sw_addr c \<le> 0xFFFFFFFFFFFFFFF8"
    by (simp_all add: l)
  note c = cont_all_patches_and_clears [OF r st]
  from c have sig: "\<forall>t \<in> set (t_HEAD state'). t_signal_to_forward t = 0" by blast
  from c t have len: "length (t_HEAD state') = 1"
    by (metis length_map)
  from c srt top have "\<forall>b \<in> set (sw_b_HEAD (fst near_registered)). sw_enabled b \<longrightarrow>
                         writable w' 1 (sw_addr b) \<longrightarrow> mem w' (sw_addr b) = ucast (sw_patched_instruction b)"
    by blast
  with l wr have m0: "mem w' 0x1000 = 0xCC" by simp
  from c l1 ap wr have m1: "load64 (mem w') (sw_addr ?b1) = sw_patched_instruction ?b1"
    by (elim conjE allE [of _ "[?b0]"] allE [of _ ?b1] allE [of _ "[?b2]"]) simp
  from c l2 wr have m2: "load64 (mem w') (sw_addr ?b2) = sw_patched_instruction ?b2"
    by (elim conjE allE [of _ "[?b0, ?b1]"] allE [of _ ?b2] allE [of _ "[]"]) simp
  from sig len have "map t_signal_to_forward (t_HEAD state') = [0]"
    by (cases "t_HEAD state'") auto
  with st t m0 m1 m2 cl before r show ?thesis by simp
qed

text \<open>
  When the tracee refuses the writes, the call still returns 0 and issues the same
  requests, and memory is as it was: the source does not look at their results.
\<close>

lemma cont_all_refused_writes:
  "fst (cont_all_and_set_bps demo_arch demo_kernel 1 (fst near_registered)
          (boot_tracee\<lparr>writable := (\<lambda>pid a. False)\<rparr>)) = 0
   \<and> calls (snd (snd (cont_all_and_set_bps demo_arch demo_kernel 1 (fst near_registered)
          (boot_tracee\<lparr>writable := (\<lambda>pid a. False)\<rparr>))))
       = [Setregs 1, Pokedata 1 0x1000 0xCC, Pokedata 1 0x1004 0xCC, Pokedata 1 0x1010 0xCC, Cont 1 5]
   \<and> load64 (mem (snd (snd (cont_all_and_set_bps demo_arch demo_kernel 1 (fst near_registered)
          (boot_tracee\<lparr>writable := (\<lambda>pid a. False)\<rparr>))))) 0x1010 = 0"
  by (simp add: near_registered_def eval_defs)

section \<open>Thread table\<close>

lemma find_thread_Some:
  "tid \<in> t_tid ` set ts \<Longrightarrow>
   \<exists>i. find_thread tid ts = Some i \<and> i < length ts \<and> t_tid (ts ! i) = tid"
  by (induction ts) auto

text \<open>
  Claim C6.  When \<open>tid\<close> is in the live list, \<open>register_thread\<close> returns the position
  of the first live entry with that tid and leaves the state and the tracee exactly as
  they were: no entry is added and no system call, in particular no register read, is
  issued.
\<close>

theorem register_thread_idempotent:
  assumes "tid \<in> t_tid ` set (t_HEAD state)"
  shows "\<exists>i. register_thread A K tid state w = (i, state, w)
            \<and> i < length (t_HEAD state) \<and> t_tid (t_HEAD state ! i) = tid
            \<and> find_thread tid (t_HEAD state) = Some i"
  using find_thread_Some [OF assms] by (auto simp: register_thread_def)

theorem register_thread_idempotent_witness:
  "5 \<in> t_tid ` set (t_HEAD (fst (snd (register_thread demo_arch demo_kernel 5 empty_state boot_tracee))))
   \<and> register_thread demo_arch demo_kernel 5
        (fst (snd (register_thread demo_arch demo_kernel 5 empty_state boot_tracee)))
        (snd (snd (register_thread demo_arch demo_kernel 5 empty_state boot_tracee)))
      = (0, fst (snd (register_thread demo_arch demo_kernel 5 empty_state boot_tracee)),
            snd (snd (register_thread demo_arch demo_kernel 5 empty_state boot_tracee)))
   \<and> calls (snd (snd (register_thread demo_arch demo_kernel 5 empty_state boot_tracee))) = [Getregs 5]"
proof -
  let ?r = "register_thread demo_arch demo_kernel 5 empty_state boot_tracee"
  have h: "5 \<in> t_tid ` set (t_HEAD (fst (snd ?r)))"
    by (simp add: register_thread_def empty_state_def getregs_def demo_kernel_def)
  have c: "calls (snd (snd ?r)) = [Getregs 5]"
    by (simp add: register_thread_def empty_state_def getregs_def demo_kernel_def
        boot_tracee_def logcall_def)
  have f: "find_thread 5 (t_HEAD (fst (snd ?r))) = Some 0"
    by (simp add: register_thread_def empty_state_def getregs_def demo_kernel_def)
  from register_thread_idempotent [OF h, of demo_arch demo_kernel "snd (snd ?r)"] f h c
  show ?thesis by auto
qed

text \<open>Calling \<open>register_thread\<close> a second time gives the result of the first call.\<close>

lemma register_thread_twice:
  "register_thread A K tid (fst (snd (register_thread A K tid state w)))
      (snd (snd (register_thread A K tid state w)))
   = register_thread A K tid state w"
  by (cases "find_thread tid (t_HEAD state)")
     (simp_all add: register_thread_def case_prod_beta)

section \<open>\<open>step_until\<close> with no steps allowed\<close>

lemma find_last_thread_valid:
  "find_last_thread tid ts = Some i \<Longrightarrow> i < length ts \<and> t_tid (ts ! i) = tid"
  by (induction ts arbitrary: i) (auto split: option.splits if_splits)

lemma find_last_thread_None: "(find_last_thread tid ts = None) = (tid \<notin> t_tid ` set ts)"
  by (induction ts) (auto split: option.splits)

lemma set_thread_regs_same: "i < length ts \<Longrightarrow> set_thread_regs i (t_regs (ts ! i)) ts = ts"
  by (simp add: set_thread_regs_def)

text \<open>
  Claim C8.  With \<open>max_steps = 0\<close> and \<open>tid\<close> in the live list, \<open>step_until\<close> returns
  0 for every target address, whether or not the thread's instruction pointer equals
  it, whatever the fuel; the state is unchanged and the only system calls issued are
  the register flushes, one \<open>PTRACE_SETREGS\<close> per live thread: no single-step.
\<close>

theorem step_until_zero_steps:
  assumes "tid \<in> t_tid ` set (t_HEAD state)"
  shows "\<exists>w'. step_until fuel A K tid addr 0 state w = Some (0, state, w')
             \<and> calls w' = calls w @ map (\<lambda>t. Setregs (t_tid t)) (t_HEAD state)"
proof -
  from assms obtain i where i: "find_last_thread tid (t_HEAD state) = Some i"
    using find_last_thread_None [of tid "t_HEAD state"]
    by (cases "find_last_thread tid (t_HEAD state)") auto
  from find_last_thread_valid [OF i] have "i < length (t_HEAD state)" by simp
  then have same: "set_thread_regs i (t_regs (t_HEAD state ! i)) (t_HEAD state) = t_HEAD state"
    by (rule set_thread_regs_same)
  have loop: "step_until_loop fuel A K tid addr 0 0 0 regs w0 = Some (0, regs, w0)" for regs w0
    by (cases fuel) simp_all
  show ?thesis
    using i same by (simp add: step_until_def loop flush_regs_calls)
qed

theorem step_until_zero_steps_witness:
  "(1::int) \<in> t_tid ` set (t_HEAD (empty_state\<lparr>t_HEAD := [thread_at 1 0x1000, thread_at 2 0x3000]\<rparr>))
   \<and> step_until 0 demo_arch demo_kernel 1 0x1000 0
        (empty_state\<lparr>t_HEAD := [thread_at 1 0x1000, thread_at 2 0x3000]\<rparr>) boot_tracee
      = Some (0, empty_state\<lparr>t_HEAD := [thread_at 1 0x1000, thread_at 2 0x3000]\<rparr>,
              boot_tracee\<lparr>kregs := (kregs boot_tracee)(1 := 0x1000, 2 := 0x3000),
                           calls := [Setregs 1, Setregs 2]\<rparr>)
   \<and> step_until 0 demo_arch demo_kernel 1 0x1234 0
        (empty_state\<lparr>t_HEAD := [thread_at 1 0x1000, thread_at 2 0x3000]\<rparr>) boot_tracee
      = Some (0, empty_state\<lparr>t_HEAD := [thread_at 1 0x1000, thread_at 2 0x3000]\<rparr>,
              boot_tracee\<lparr>kregs := (kregs boot_tracee)(1 := 0x1000, 2 := 0x3000),
                           calls := [Setregs 1, Setregs 2]\<rparr>)"
proof -
  let ?s = "empty_state\<lparr>t_HEAD := [thread_at 1 0x1000, thread_at 2 0x3000]\<rparr>"
  have h: "(1::int) \<in> t_tid ` set (t_HEAD ?s)"
    by (simp add: thread_at_def)
  have f: "flush_regs demo_kernel ''ptrace_setregs'' (t_HEAD ?s) boot_tracee
           = boot_tracee\<lparr>kregs := (kregs boot_tracee)(1 := 0x1000, 2 := 0x3000),
                           calls := [Setregs 1, Setregs 2]\<rparr>"
    by (simp add: thread_at_def setregs_def demo_kernel_def logcall_def boot_tracee_def)
  from step_until_zero_steps [OF h, of 0 demo_arch demo_kernel "0x1000" boot_tracee]
    step_until_zero_steps [OF h, of 0 demo_arch demo_kernel "0x1234" boot_tracee]
  show ?thesis using h f by (auto simp: step_until_def)
qed

section \<open>A failed first wait in \<open>wait_all_and_update_regs\<close>\<close>

text \<open>
  Claim C9.  When the first, blocking wait on the process group returns -1,
  \<open>wait_all_and_update_regs\<close> returns \<open>NULL\<close> whatever the fuel; the state, with
  every cached register block, is unchanged, and the only system calls issued are
  \<open>getpgid\<close> and that wait: no \<open>SIGSTOP\<close> is sent, no registers are read and no word
  is written to memory.
\<close>

theorem wait_all_first_wait_fails:
  assumes "fst (sys_waitpid K (- fst (sys_getpgid K pid w)) 0 (fresh_int K)
                  (snd (sys_getpgid K pid w))) = - 1"
  shows "\<exists>w'. wait_all_and_update_regs fuel K pid state w = Some (None, state, w')
             \<and> calls w' = calls w @ [Getpgid pid, Waitpid (- fst (sys_getpgid K pid w)) 0]"
  using assms
  by (simp add: wait_all_and_update_regs_def case_prod_beta calls_perror calls_sys_waitpid
      calls_sys_getpgid)

theorem wait_all_first_wait_fails_witness:
  "fst (sys_waitpid demo_kernel (- fst (sys_getpgid demo_kernel 1 boot_tracee)) 0
          (fresh_int demo_kernel) (snd (sys_getpgid demo_kernel 1 boot_tracee))) = - 1
   \<and> wait_all_and_update_regs 0 demo_kernel 1 finish_state boot_tracee
       = Some (None, finish_state,
               boot_tracee\<lparr>calls := [Getpgid 1, Waitpid (- 1) 0], diag := [''waitpid'']\<rparr>)"
proof -
  have h: "fst (sys_waitpid demo_kernel (- fst (sys_getpgid demo_kernel 1 boot_tracee)) 0
          (fresh_int demo_kernel) (snd (sys_getpgid demo_kernel 1 boot_tracee))) = - 1"
    by (simp add: demo_kernel_def sys_waitpid_def sys_getpgid_def)
  from wait_all_first_wait_fails [OF h, of 0 finish_state]
  show ?thesis using h
    by (auto simp: wait_all_and_update_regs_def sys_getpgid_def sys_waitpid_def Let_def
      logcall_def perror_def demo_kernel_def boot_tracee_def)
qed

section \<open>Hardware breakpoints when no debug register is free\<close>

lemma scan_free_dr_numeral:
  "scan_free_dr tid i (numeral k) w =
     (case sys_peekuser tid (DR_BASE + of_nat i * DR_SIZE) w of (address, w1) \<Rightarrow>
        if address = 0 then (i, w1) else scan_free_dr tid (Suc i) (pred_numeral k) w1)"
  by (simp add: numeral_eq_Suc)

lemma scan_free_dr_full:
  assumes "uarea w tid 0x350 \<noteq> 0" and "uarea w tid 0x358 \<noteq> 0"
    and "uarea w tid 0x360 \<noteq> 0" and "uarea w tid 0x368 \<noteq> 0"
  shows "scan_free_dr tid 0 4 w
         = (4, w\<lparr>calls := calls w @ [Peekuser tid 0x350, Peekuser tid 0x358,
                                        Peekuser tid 0x360, Peekuser tid 0x368]\<rparr>)"
  using assms
  by (simp add: scan_free_dr_numeral sys_peekuser_def DR_BASE_def DR_SIZE_def logcall_def)

text \<open>
  Claim C2, as stated, fails on the list.  After four registrations for thread 7 its
  debug registers DR0 to DR3 hold \<open>0x4000\<close>, \<open>0x4008\<close>, \<open>0x4010\<close> and
  \<open>0x4018\<close>; a fifth registration, at \<open>0x4020\<close>, leaves a list of five entries.
\<close>

theorem register_hw_breakpoint_fifth_counterexample:
  "uarea (snd four_hw) 7 0x350 = 0x4000 \<and> uarea (snd four_hw) 7 0x358 = 0x4008
   \<and> uarea (snd four_hw) 7 0x360 = 0x4010 \<and> uarea (snd four_hw) 7 0x368 = 0x4018
   \<and> map hw_addr (hw_b_HEAD (fst four_hw)) = [0x4018, 0x4010, 0x4008, 0x4000]
   \<and> map hw_addr (hw_b_HEAD (fst (register_hw_breakpoint 7 0x4020 (CHR ''w'', CHR 0x00) 8
                                      (fst four_hw) (snd four_hw))))
       = [0x4020, 0x4018, 0x4010, 0x4008, 0x4000]
   \<and> hw_b_HEAD (fst (register_hw_breakpoint 7 0x4020 (CHR ''w'', CHR 0x00) 8
                        (fst four_hw) (snd four_hw))) \<noteq> hw_b_HEAD (fst four_hw)"
  by (simp add: four_hw_def hw_defs scan_free_dr_numeral)

text \<open>
  Claim C2, amended.  When the four debug-register slots of a thread all read as
  non-zero and the pair (address, tid) is not in the list, \<open>register_hw_breakpoint\<close>
  writes no debug register: the user area is unchanged, the only system calls are the
  four \<open>PTRACE_PEEKUSER\<close> reads of the slots, and a diagnostic is printed.  The list
  does change: the new entry, marked enabled, is prepended.
\<close>

theorem register_hw_breakpoint_no_free_slot:
  assumes "\<not> hw_registered address tid (hw_b_HEAD state)"
    and "uarea w tid 0x350 \<noteq> 0" and "uarea w tid 0x358 \<noteq> 0"
    and "uarea w tid 0x360 \<noteq> 0" and "uarea w tid 0x368 \<noteq> 0"
  shows "fst (register_hw_breakpoint tid address type len state w)
           = state\<lparr>hw_b_HEAD := \<lparr>hw_addr = address, hw_tid = tid, hw_enabled = True,
                                    hw_type = type, hw_len = len\<rparr> # hw_b_HEAD state\<rparr>
       \<and> uarea (snd (register_hw_breakpoint tid address type len state w)) = uarea w
       \<and> calls (snd (register_hw_breakpoint tid address type len state w))
           = calls w @ [Peekuser tid 0x350, Peekuser tid 0x358, Peekuser tid 0x360, Peekuser tid 0x368]
       \<and> diag (snd (register_hw_breakpoint tid address type len state w))
           = diag w @ [''No debug registers available'']"
  using assms(1) scan_free_dr_full [OF assms(2-5)]
  by (simp add: register_hw_breakpoint_def install_hardware_breakpoint_def perror_def)

theorem register_hw_breakpoint_no_free_slot_witness:
  "\<not> hw_registered 0x4020 7 (hw_b_HEAD (fst four_hw))
   \<and> uarea (snd four_hw) 7 0x350 \<noteq> 0 \<and> uarea (snd four_hw) 7 0x358 \<noteq> 0
   \<and> uarea (snd four_hw) 7 0x360 \<noteq> 0 \<and> uarea (snd four_hw) 7 0x368 \<noteq> 0
   \<and> uarea (snd (register_hw_breakpoint 7 0x4020 (CHR ''w'', CHR 0x00) 8 (fst four_hw) (snd four_hw)))
       = uarea (snd four_hw)
   \<and> diag (snd (register_hw_breakpoint 7 0x4020 (CHR ''w'', CHR 0x00) 8 (fst four_hw) (snd four_hw)))
       = [''No debug registers available'']
   \<and> hd (hw_b_HEAD (fst (register_hw_breakpoint 7 0x4020 (CHR ''w'', CHR 0x00) 8
                            (fst four_hw) (snd four_hw))))
       = \<lparr>hw_addr = 0x4020, hw_tid = 7, hw_enabled = True, hw_type = (CHR ''w'', CHR 0x00), hw_len = 8\<rparr>"
proof -
  have h: "\<not> hw_registered 0x4020 7 (hw_b_HEAD (fst four_hw))"
    by (simp add: four_hw_def hw_defs scan_free_dr_numeral)
  have u: "uarea (snd four_hw) 7 0x350 \<noteq> 0" "uarea (snd four_hw) 7 0x358 \<noteq> 0"
    "uarea (snd four_hw) 7 0x360 \<noteq> 0" "uarea (snd four_hw) 7 0x368 \<noteq> 0"
    by (simp_all add: four_hw_def hw_defs scan_free_dr_numeral)
  have d: "diag (snd four_hw) = []"
    by (simp add: four_hw_def hw_defs scan_free_dr_numeral)
  from register_hw_breakpoint_no_free_slot [OF h u, of "(CHR ''w'', CHR 0x00)" 8] h u d
  show ?thesis by simp
qed

section \<open>Leaving the code clean after \<open>stepping_finish\<close>\<close>

lemma stepping_finish_returns_zero:
  assumes "stepping_finish fuel A K tid state w = Some (0, state', w')"
  shows "\<exists>w0. w' = poke_enabled sw_instruction tid (sw_b_HEAD state) w0
            \<and> sw_b_HEAD state' = sw_b_HEAD state"
  using assms
  by (auto simp: stepping_finish_def
      split: prod.splits option.splits loop_exit.splits if_splits)

text \<open>
  Claim C4, as stated, fails on the returns with -1.  With an enabled breakpoint at
  \<open>0x1000\<close> whose original word is \<open>0x90\<close>: for a tid that is not live,
  \<open>stepping_finish\<close> returns -1 after \<open>prepare_for_run\<close> has patched the
  breakpoint in; and when the first single-step of the loop fails it returns -1 as
  well.  In both runs the only word written at \<open>0x1000\<close> is the patched one, which
  is what memory holds at the return.
\<close>

theorem stepping_finish_error_counterexample:
  "stepping_finish 0 demo_arch demo_kernel 9 finish_state boot_tracee
     = Some (- 1, finish_state,
             boot_tracee\<lparr>mem := store64 (mem boot_tracee) 0x1000 0xCC,
                          kregs := (kregs boot_tracee)(1 := 0x2000),
                          calls := [Setregs 1, Pokedata 9 0x1000 0xCC],
                          diag := [''Thread not found'']\<rparr>)
   \<and> stepping_finish (Suc 0) demo_arch stuck_kernel 1 finish_state boot_tracee
     = Some (- 1, finish_state,
             boot_tracee\<lparr>mem := store64 (mem boot_tracee) 0x1000 0xCC,
                          kregs := (kregs boot_tracee)(1 := 0x2000),
                          calls := [Setregs 1, Pokedata 1 0x1000 0xCC, Singlestep 1 0]\<rparr>)
   \<and> load64 (store64 (mem boot_tracee) 0x1000 0xCC) 0x1000 = 0xCC
   \<and> sw_b_HEAD finish_state
     = [\<lparr>sw_addr = 0x1000, sw_instruction = 0x90, sw_patched_instruction = 0xCC, sw_enabled = True\<rparr>]"
  by (simp add: stepping_finish_def finish_state_def stuck_kernel_def set_thread_regs_def eval_defs)

text \<open>
  Claim C4, amended.  Whenever \<open>stepping_finish\<close> returns 0, that is after the
  counter has reached 0 and the final step has been taken, or after the loop has been
  left because the instruction pointer did not move or the byte at it is the trap
  opcode, the last system calls issued are the writes of \<open>instruction\<close> at the
  address of every enabled software breakpoint, in table order; the table is unchanged,
  and the word in memory at an enabled breakpoint is its \<open>instruction\<close> provided
  the write there is accepted and every enabled entry after it lies at least 8 bytes
  away.
\<close>

theorem stepping_finish_cleanup:
  assumes "stepping_finish fuel A K tid state w = Some (0, state', w')"
  shows "sw_b_HEAD state' = sw_b_HEAD state
       \<and> (\<exists>before. calls w' = before @ map (\<lambda>b. Pokedata tid (sw_addr b) (sw_instruction b))
                                            (filter sw_enabled (sw_b_HEAD state)))
       \<and> (\<forall>xs b ys. sw_b_HEAD state = xs @ b # ys \<longrightarrow> sw_enabled b \<longrightarrow>
              writable w' tid (sw_addr b) \<longrightarrow>
              (\<forall>c \<in> set ys. sw_enabled c \<longrightarrow> apart (sw_addr b) (sw_addr c)) \<longrightarrow>
              load64 (mem w') (sw_addr b) = sw_instruction b)"
proof -
  from stepping_finish_returns_zero [OF assms] obtain w0 where
    w': "w' = poke_enabled sw_instruction tid (sw_b_HEAD state) w0"
    and l: "sw_b_HEAD state' = sw_b_HEAD state" by blast
  have "calls w' = calls w0 @ map (\<lambda>b. Pokedata tid (sw_addr b) (sw_instruction b))
                                   (filter sw_enabled (sw_b_HEAD state))"
    unfolding w' by (rule poke_enabled_calls)
  then have "\<exists>before. calls w' = before @ map (\<lambda>b. Pokedata tid (sw_addr b) (sw_instruction b))
                                            (filter sw_enabled (sw_b_HEAD state))" ..
  moreover have "\<forall>xs b ys. sw_b_HEAD state = xs @ b # ys \<longrightarrow> sw_enabled b \<longrightarrow>
              writable w' tid (sw_addr b) \<longrightarrow>
              (\<forall>c \<in> set ys. sw_enabled c \<longrightarrow> apart (sw_addr b) (sw_addr c)) \<longrightarrow>
              load64 (mem w') (sw_addr b) = sw_instruction b"
    unfolding w' by (auto simp: poke_enabled_last_write poke_enabled_writable)
  ultimately show ?thesis using l by blast
qed

theorem stepping_finish_cleanup_witness:
  "\<exists>state' w'.
     stepping_finish (Suc 0) demo_arch walking_kernel 1 finish_state ret_tracee = Some (0, state', w')
     \<and> t_HEAD state' = [thread_at 1 0x2002]
     \<and> calls w' = [Setregs 1, Pokedata 1 0x1000 0xCC, Singlestep 1 0, Waitpid 1 0, Getregs 1,
                   Peekdata 1 0x2001, Singlestep 1 0, Waitpid 1 0, Getregs 1,
                   Pokedata 1 0x1000 0x90]
     \<and> load64 (mem w') 0x1000 = 0x90"
proof -
  let ?b = "\<lparr>sw_addr = 0x1000, sw_instruction = 0x90, sw_patched_instruction = 0xCC, sw_enabled = True\<rparr>"
  have "\<exists>state' w'.
     stepping_finish (Suc 0) demo_arch walking_kernel 1 finish_state ret_tracee = Some (0, state', w')
     \<and> t_HEAD state' = [thread_at 1 0x2002]
     \<and> calls w' = [Setregs 1, Pokedata 1 0x1000 0xCC, Singlestep 1 0, Waitpid 1 0, Getregs 1,
                   Peekdata 1 0x2001, Singlestep 1 0, Waitpid 1 0, Getregs 1,
                   Pokedata 1 0x1000 0x90]
     \<and> writable w' 1 0x1000"
    by (simp add: stepping_finish_def finish_state_def walking_kernel_def ret_tracee_def
        set_thread_regs_def eval_defs)
  then obtain state' w' where
    r: "stepping_finish (Suc 0) demo_arch walking_kernel 1 finish_state ret_tracee = Some (0, state', w')"
    and t: "t_HEAD state' = [thread_at 1 0x2002]"
    and c: "calls w' = [Setregs 1, Pokedata 1 0x1000 0xCC, Singlestep 1 0, Waitpid 1 0, Getregs 1,
                   Peekdata 1 0x2001, Singlestep 1 0, Waitpid 1 0, Getregs 1,
                   Pokedata 1 0x1000 0x90]"
    and wr: "writable w' 1 0x1000"
    by blast
  have l: "sw_b_HEAD finish_state = [] @ ?b # []"
    by (simp add: finish_state_def empty_state_def)
  from stepping_finish_cleanup [OF r] l wr
  have "load64 (mem w') (sw_addr ?b) = sw_instruction ?b"
    by (elim conjE allE [of _ "[]"] allE [of _ ?b] allE [of _ "[]"]) simp
  with r t c show ?thesis by simp
qed

end
